theory Spec2Isabelle
  imports Complex_Main
begin

section \<open>Tensors as the binding layer sees them\<close>

text \<open>
  The binding \<^verbatim>\<open>svox.cpp\<close> never looks inside a tensor: it reads its device, whether
  it is contiguous, its rank, its element type and the size of one dimension, and hands
  the tensor on to a device kernel. A tensor is therefore a handle: these attributes and
  the address of the storage that holds its elements. Two handles with the same address
  share their elements.

  The binding asks of a device only whether it is a CUDA device; \<open>CPU\<close> stands for every
  device that is not. Sizes are never negative, so they are natural numbers. The
  floating-point element types are the four that the tensor library counts as such.
\<close>

datatype device = CPU | CUDA nat

datatype scalar_type =
  UInt8 | Int8 | Int16 | Int32 | Int64 | Float16 | Float32 | Float64
  | ComplexHalf | ComplexFloat | ComplexDouble | Bool8 | BFloat16

record tensor =
  device :: device
  contiguous :: bool
  sizes :: "nat list"
  dtype :: scalar_type
  storage :: nat

datatype error = Error string | IndexError string

definition is_cuda :: "tensor \<Rightarrow> bool" where
  "is_cuda x = (case device x of CUDA i \<Rightarrow> True | CPU \<Rightarrow> False)"

definition is_contiguous :: "tensor \<Rightarrow> bool" where
  "is_contiguous x = contiguous x"

definition dim :: "tensor \<Rightarrow> int" where
  "dim x = int (length (sizes x))"

definition isFloatingType :: "scalar_type \<Rightarrow> bool" where
  "isFloatingType t = (t = Float64 \<or> t = Float32 \<or> t = Float16 \<or> t = BFloat16)"

definition is_floating_point :: "tensor \<Rightarrow> bool" where
  "is_floating_point x = isFloatingType (dtype x)"

text \<open>
  \<^verbatim>\<open>Tensor::size(d)\<close> wraps a negative dimension and raises an index error when the
  dimension is out of range, or when the tensor has no dimensions at all.
\<close>

definition maybe_wrap_dim :: "int \<Rightarrow> int \<Rightarrow> error + int" where
  "maybe_wrap_dim d n =
     (if n \<le> 0 then Inl (IndexError ''dimension specified but tensor has no dimensions'')
      else if d < - n \<or> n - 1 < d then Inl (IndexError ''Dimension out of range'')
      else Inr (if d < 0 then d + n else d))"

definition size_at :: "tensor \<Rightarrow> int \<Rightarrow> error + nat" where
  "size_at x d =
     (case maybe_wrap_dim d (dim x) of
        Inl e \<Rightarrow> Inl e
      | Inr i \<Rightarrow> Inr (sizes x ! nat i))"

section \<open>The validation macros\<close>

text \<open>
  \<^verbatim>\<open>TORCH_CHECK(cond, msg)\<close> throws when the condition is false. A throw is the value
  \<open>Inl\<close>; the statements of a function body run in order and the first throw ends it.
\<close>

definition TORCH_CHECK :: "bool \<Rightarrow> string \<Rightarrow> error + unit" where
  "TORCH_CHECK cond msg = (if cond then Inr () else Inl (Error msg))"

definition CHECK_CUDA :: "string \<Rightarrow> tensor \<Rightarrow> error + unit" where
  "CHECK_CUDA name x = TORCH_CHECK (is_cuda x) (name @ '' must be a CUDA tensor'')"

definition CHECK_CONTIGUOUS :: "string \<Rightarrow> tensor \<Rightarrow> error + unit" where
  "CHECK_CONTIGUOUS name x = TORCH_CHECK (is_contiguous x) (name @ '' must be contiguous'')"

definition CHECK_INPUT :: "string \<Rightarrow> tensor \<Rightarrow> error + unit" where
  "CHECK_INPUT name x =
     (case CHECK_CUDA name x of
        Inl e \<Rightarrow> Inl e
      | Inr _ \<Rightarrow> CHECK_CONTIGUOUS name x)"

fun first_failure :: "(error + unit) list \<Rightarrow> error + unit" where
  "first_failure [] = Inr ()"
| "first_failure (Inl e # cs) = Inl e"
| "first_failure (Inr u # cs) = first_failure cs"

section \<open>Device memory, the current device and the device guard\<close>

text \<open>
  Tensors are passed by handle, so a kernel that writes through a handle changes the
  buffer every other handle to the same storage sees. The state is the contents of every
  storage and the process's current CUDA device. \<^verbatim>\<open>OptionalCUDAGuard\<close> makes the given
  device current for the rest of the scope and restores the previous one at its end; it
  refuses a device that is not a CUDA device.
\<close>

record 'v state =
  mem :: "nat \<Rightarrow> 'v list"
  current_device :: nat

definition device_of :: "tensor \<Rightarrow> device option" where
  "device_of x = Some (device x)"

fun device_guard ::
  "device option \<Rightarrow> ('v state \<Rightarrow> 'r \<times> 'v state) \<Rightarrow> 'v state \<Rightarrow> (error + 'r) \<times> 'v state" where
  "device_guard None body s = (case body s of (r, s') \<Rightarrow> (Inr r, s'))"
| "device_guard (Some CPU) body s = (Inl (Error ''expected a CUDA device''), s)"
| "device_guard (Some (CUDA i)) body s =
     (case body (s\<lparr>current_device := i\<rparr>) of
        (r, s') \<Rightarrow> (Inr r, s'\<lparr>current_device := current_device s\<rparr>))"

section \<open>The four operations of the binding\<close>

text \<open>
  The device kernels \<^verbatim>\<open>_query_vertical_cuda\<close>, \<^verbatim>\<open>_query_vertical_backward_cuda\<close>,
  \<^verbatim>\<open>_assign_vertical_cuda\<close> and \<^verbatim>\<open>_volume_render_cuda\<close> are only declared in the
  source. Each operation takes its kernel as its first argument: any function from the
  tensor handles and the state to a result and a new state.
\<close>

type_synonym ('v, 'r) kernel5 =
  "tensor \<Rightarrow> tensor \<Rightarrow> tensor \<Rightarrow> tensor \<Rightarrow> tensor \<Rightarrow> 'v state \<Rightarrow> 'r \<times> 'v state"

type_synonym ('v, 'r) kernel6 =
  "tensor \<Rightarrow> tensor \<Rightarrow> tensor \<Rightarrow> tensor \<Rightarrow> tensor \<Rightarrow> tensor \<Rightarrow> 'v state \<Rightarrow> 'r \<times> 'v state"

type_synonym ('v, 'f, 'r) kernel_render =
  "tensor \<Rightarrow> tensor \<Rightarrow> tensor \<Rightarrow> tensor \<Rightarrow> tensor \<Rightarrow> tensor \<Rightarrow> tensor \<Rightarrow> 'f \<Rightarrow> 'f \<Rightarrow> 'f
     \<Rightarrow> 'v state \<Rightarrow> 'r \<times> 'v state"

definition query_vertical ::
  "('v, 'r) kernel5 \<Rightarrow> tensor \<Rightarrow> tensor \<Rightarrow> tensor \<Rightarrow> tensor \<Rightarrow> tensor
     \<Rightarrow> 'v state \<Rightarrow> (error + 'r) \<times> 'v state" where
  "query_vertical query_vertical_cuda data child indices offset invradius s =
     (case first_failure
        [CHECK_INPUT ''data'' data,
         CHECK_INPUT ''child'' child,
         CHECK_INPUT ''indices'' indices,
         CHECK_INPUT ''offset'' offset,
         CHECK_INPUT ''invradius'' invradius,
         TORCH_CHECK (dim indices = 2) ''Expected indices.dim() == 2 to be true, but got false.'',
         TORCH_CHECK (is_floating_point indices)
           ''Expected indices.is_floating_point() to be true, but got false.'']
      of
        Inl e \<Rightarrow> (Inl e, s)
      | Inr _ \<Rightarrow>
          device_guard (device_of data)
            (query_vertical_cuda data child indices offset invradius) s)"

definition query_vertical_backward ::
  "('v, 'r) kernel5 \<Rightarrow> tensor \<Rightarrow> tensor \<Rightarrow> tensor \<Rightarrow> tensor \<Rightarrow> tensor
     \<Rightarrow> 'v state \<Rightarrow> (error + 'r) \<times> 'v state" where
  "query_vertical_backward query_vertical_backward_cuda child indices grad_output offset invradius s =
     (case first_failure
        [CHECK_INPUT ''child'' child,
         CHECK_INPUT ''grad_output'' grad_output,
         CHECK_INPUT ''indices'' indices,
         CHECK_INPUT ''offset'' offset,
         CHECK_INPUT ''invradius'' invradius,
         TORCH_CHECK (dim indices = 2) ''Expected indices.dim() == 2 to be true, but got false.'',
         TORCH_CHECK (is_floating_point indices)
           ''Expected indices.is_floating_point() to be true, but got false.'']
      of
        Inl e \<Rightarrow> (Inl e, s)
      | Inr _ \<Rightarrow>
          device_guard (device_of grad_output)
            (query_vertical_backward_cuda child indices grad_output offset invradius) s)"

definition assign_vertical ::
  "('v, 'r) kernel6 \<Rightarrow> tensor \<Rightarrow> tensor \<Rightarrow> tensor \<Rightarrow> tensor \<Rightarrow> tensor \<Rightarrow> tensor
     \<Rightarrow> 'v state \<Rightarrow> (error + 'r) \<times> 'v state" where
  "assign_vertical assign_vertical_cuda data child indices values offset invradius s =
     (case first_failure
        [CHECK_INPUT ''data'' data,
         CHECK_INPUT ''child'' child,
         CHECK_INPUT ''indices'' indices,
         CHECK_INPUT ''values'' values,
         CHECK_INPUT ''offset'' offset,
         CHECK_INPUT ''invradius'' invradius,
         TORCH_CHECK (dim indices = 2) ''Expected indices.dim() == 2 to be true, but got false.'',
         TORCH_CHECK (dim values = 2) ''Expected values.dim() == 2 to be true, but got false.'',
         TORCH_CHECK (is_floating_point indices)
           ''Expected indices.is_floating_point() to be true, but got false.'',
         TORCH_CHECK (is_floating_point values)
           ''Expected values.is_floating_point() to be true, but got false.'']
      of
        Inl e \<Rightarrow> (Inl e, s)
      | Inr _ \<Rightarrow>
          device_guard (device_of data)
            (assign_vertical_cuda data child indices values offset invradius) s)"

definition volume_render ::
  "('v, 'f, 'r) kernel_render \<Rightarrow> tensor \<Rightarrow> tensor \<Rightarrow> tensor \<Rightarrow> tensor \<Rightarrow> tensor \<Rightarrow> tensor
     \<Rightarrow> tensor \<Rightarrow> 'f \<Rightarrow> 'f \<Rightarrow> 'f \<Rightarrow> 'v state \<Rightarrow> (error + 'r) \<times> 'v state" where
  "volume_render volume_render_cuda data child origins dirs vdirs offset invradius
       step_size stop_thresh background_brightness s =
     (case first_failure
        [CHECK_INPUT ''data'' data,
         CHECK_INPUT ''child'' child,
         CHECK_INPUT ''origins'' origins,
         CHECK_INPUT ''dirs'' dirs,
         CHECK_INPUT ''vdirs'' vdirs,
         CHECK_INPUT ''offset'' offset,
         CHECK_INPUT ''invradius'' invradius,
         (case size_at data (- 1) of
            Inl e \<Rightarrow> Inl e
          | Inr n \<Rightarrow>
              TORCH_CHECK (4 \<le> n) ''Expected data.size(-1) >= 4 to be true, but got false.'')]
      of
        Inl e \<Rightarrow> (Inl e, s)
      | Inr _ \<Rightarrow>
          (case volume_render_cuda data child origins dirs vdirs offset invradius
                  step_size stop_thresh background_brightness s of
             (r, s') \<Rightarrow> (Inr r, s')))"

section \<open>The device kernels, as the specification describes them\<close>

type_synonym 'v view = "tensor \<times> 'v list"

text \<open>
  Modelled from the spec: what a device kernel, whose body the source does not contain,
  can read of a tensor argument. By section 6 the inputs are flat numeric buffers of the
  listed shapes: the handle and the contents of its storage.
\<close>

definition view :: "'v state \<Rightarrow> tensor \<Rightarrow> 'v view" where
  "view s x = (x, mem s (storage x))"

text \<open>
  Modelled from the spec: the body of the kernel \<^verbatim>\<open>_query_vertical_cuda\<close>, which the
  source only declares. By the interface table (section 6) the query reads \<open>data\<close>,
  \<open>child\<close>, \<open>indices\<close>, \<open>offset\<close> and \<open>invradius\<close> and returns a new \<open>(Q, K)\<close> array; by
  the lifecycle paragraph (section 3) it is read-only with respect to \<open>child\<close> and
  \<open>data\<close>. The numbers it computes are the parameter \<open>f\<close>, a function of what the
  kernel can read.
\<close>

definition query_vertical_cuda :: "('v view list \<Rightarrow> 'r) \<Rightarrow> ('v, 'r) kernel5" where
  "query_vertical_cuda f data child indices offset invradius s =
     (f (map (view s) [data, child, indices, offset, invradius]), s)"

text \<open>
  Modelled from the spec: the body of the kernel \<^verbatim>\<open>_query_vertical_backward_cuda\<close>, which
  the source only declares. By the interface table (section 6) it reads \<open>child\<close>,
  \<open>indices\<close>, \<open>grad_output\<close>, \<open>offset\<close> and \<open>invradius\<close> and returns a new gradient array of
  the shape of \<open>data\<close>. The numbers it computes are the parameter \<open>f\<close>.
\<close>

definition query_vertical_backward_cuda :: "('v view list \<Rightarrow> 'r) \<Rightarrow> ('v, 'r) kernel5" where
  "query_vertical_backward_cuda f child indices grad_output offset invradius s =
     (f (map (view s) [child, indices, grad_output, offset, invradius]), s)"

text \<open>
  Modelled from the spec: the body of the kernel \<^verbatim>\<open>_assign_vertical_cuda\<close>, which the
  source only declares. By the interface table (section 6) it returns nothing and mutates
  \<open>data\<close> in place; by section 3 the grid is mutated only through these scatter writes
  into \<open>data\<close>. The new contents of the buffer of \<open>data\<close> are the parameter \<open>f\<close>, a
  function of what the kernel can read.
\<close>

definition assign_vertical_cuda :: "('v view list \<Rightarrow> 'v list) \<Rightarrow> ('v, unit) kernel6" where
  "assign_vertical_cuda f data child indices values offset invradius s =
     ((), s\<lparr>mem := (mem s)
        (storage data := f (map (view s) [data, child, indices, values, offset, invradius]))\<rparr>)"

text \<open>
  Modelled from the spec: the body of the kernel \<^verbatim>\<open>_volume_render_cuda\<close>, which the source
  only declares. By the interface table (section 6) it reads the grid, the rays and the
  three scalars and returns a new array with one colour per ray; by section 3 rendering is
  read-only with respect to \<open>child\<close> and \<open>data\<close>. The numbers it computes are the
  parameter \<open>f\<close>.
\<close>

definition volume_render_cuda ::
  "('v view list \<Rightarrow> 'f \<Rightarrow> 'f \<Rightarrow> 'f \<Rightarrow> 'r) \<Rightarrow> ('v, 'f, 'r) kernel_render" where
  "volume_render_cuda f data child origins dirs vdirs offset invradius
       step_size stop_thresh background_brightness s =
     (f (map (view s) [data, child, origins, dirs, vdirs, offset, invradius])
        step_size stop_thresh background_brightness, s)"

section \<open>The coordinate mapper and the interpolation weights, from the specification\<close>

type_synonym vec3 = "real \<times> real \<times> real"

text \<open>
  Modelled from the spec: the coordinate mapper of section 4.1, which lives in the device
  kernels the source only declares: \<open>g = (x + offset) * invradius\<close>, componentwise.
  Floating-point numbers are idealised as reals.
\<close>

fun coord_map :: "vec3 \<Rightarrow> vec3 \<Rightarrow> vec3 \<Rightarrow> vec3" where
  "coord_map (o1, o2, o3) (r1, r2, r3) (x1, x2, x3) =
     ((x1 + o1) * r1, (x2 + o2) * r2, (x3 + o3) * r3)"

text \<open>
  Modelled from the spec: the integer cell coordinate of the traversal of section 4.2,
  \<open>floor (g * N)\<close> clipped to \<open>[0, N - 1]\<close>, in a tile of side \<open>N\<close>. The traversal
  lives in the device kernels the source only declares.
\<close>

definition cell_coord :: "nat \<Rightarrow> real \<Rightarrow> nat" where
  "cell_coord N g = nat (min (int N - 1) (max 0 \<lfloor>g * real N\<rfloor>))"

text \<open>
  Modelled from the spec: the descent of section 4.2 through at most \<open>levels\<close> levels,
  starting at a tile with grid-local coordinates \<open>g\<close>. A positive entry of \<open>child\<close> is the
  index of the child tile and the descent goes on there with \<open>g' = g * N - cell\<close>; any
  other entry is a leaf and the current tile is final. The result is the final tile and
  the coordinates within it.
\<close>

fun descend ::
  "nat \<Rightarrow> (nat \<Rightarrow> nat \<times> nat \<times> nat \<Rightarrow> int) \<Rightarrow> nat \<Rightarrow> nat \<Rightarrow> vec3 \<Rightarrow> nat \<times> vec3" where
  "descend 0 child N tile g = (tile, g)"
| "descend (Suc levels) child N tile (gx, gy, gz) =
     (let cell = (cell_coord N gx, cell_coord N gy, cell_coord N gz) in
      if 0 < child tile cell
      then descend levels child N (nat (child tile cell))
             (gx * real N - real (cell_coord N gx),
              gy * real N - real (cell_coord N gy),
              gz * real N - real (cell_coord N gz))
      else (tile, (gx, gy, gz)))"

text \<open>
  Modelled from the spec: the fractional offset within the cell (section 4.2,
  interpolation), along one axis of a tile of side \<open>N\<close>: what is left of \<open>g * N\<close> beyond
  the integer cell coordinate. The interpolation lives in the device kernels the source
  only declares.
\<close>

definition frac_offset :: "nat \<Rightarrow> real \<Rightarrow> real" where
  "frac_offset N g = g * real N - real (cell_coord N g)"

text \<open>
  Modelled from the spec: the trilinear weights of the eight surrounding corners (section
  4.2, interpolation; glossary: a blend of the eight nearest corners based on the
  fractional offset), computed in the device kernels the source only declares. Along one
  axis the lower corner weighs \<open>1 - f\<close> and the upper corner \<open>f\<close>; a corner's weight is the
  product over the three axes.
\<close>

fun trilinear_weights :: "vec3 \<Rightarrow> real list" where
  "trilinear_weights (fx, fy, fz) =
     [wx * wy * wz. wx \<leftarrow> [1 - fx, fx], wy \<leftarrow> [1 - fy, fy], wz \<leftarrow> [1 - fz, fz]]"

text \<open>
  Modelled from the spec: the weights the query engine of section 4.2 uses for one query
  point: descend from the root tile 0, then take the trilinear weights at the fractional
  offset within the final tile.
\<close>

definition query_weights ::
  "nat \<Rightarrow> (nat \<Rightarrow> nat \<times> nat \<times> nat \<Rightarrow> int) \<Rightarrow> nat \<Rightarrow> vec3 \<Rightarrow> real list" where
  "query_weights levels child N g =
     (case descend levels child N 0 g of
        (tile, (gx, gy, gz)) \<Rightarrow>
          trilinear_weights (frac_offset N gx, frac_offset N gy, frac_offset N gz))"

section \<open>Example inputs\<close>

definition cuda_tensor :: "nat \<Rightarrow> nat list \<Rightarrow> scalar_type \<Rightarrow> nat \<Rightarrow> tensor" where
  "cuda_tensor i shape t a =
     \<lparr>device = CUDA i, contiguous = True, sizes = shape, dtype = t, storage = a\<rparr>"

definition cpu_tensor :: "nat list \<Rightarrow> scalar_type \<Rightarrow> nat \<Rightarrow> tensor" where
  "cpu_tensor shape t a =
     \<lparr>device = CPU, contiguous = True, sizes = shape, dtype = t, storage = a\<rparr>"

definition empty_state :: "real state" where
  "empty_state = \<lparr>mem = (\<lambda>a. []), current_device = 0\<rparr>"

text \<open>A kernel that reports the rank of its first argument and writes nothing.\<close>

definition rank_kernel5 :: "(real, nat) kernel5" where
  "rank_kernel5 a b c d e s = (length (sizes a), s)"

definition rank_kernel6 :: "(real, nat) kernel6" where
  "rank_kernel6 a b c d e g s = (length (sizes a), s)"

definition rank_kernel_render :: "(real, real, nat) kernel_render" where
  "rank_kernel_render a b c d e g h x y z s = (length (sizes a), s)"

text \<open>A kernel that overwrites every buffer of the device memory.\<close>

definition clobber_kernel6 :: "(real, nat) kernel6" where
  "clobber_kernel6 a b c d e g s = (0, s\<lparr>mem := (\<lambda>x. [0])\<rparr>)"

text \<open>
  A grid of one tile with one cell and four channels: the buffer of \<open>data\<close> at address
  0, the buffer of \<open>child\<close> at address 1, one query point at address 2, one row of
  values at address 3.
\<close>

definition example_state :: "real state" where
  "example_state =
     \<lparr>mem = (\<lambda>a. if a = 0 then [1, 2, 3, 4] else if a = 1 then [0]
                 else if a = 2 then [1 / 2, 1 / 2, 1 / 2] else if a = 3 then [9, 8, 7, 6]
                 else []),
      current_device = 0\<rparr>"

section \<open>Facts about the validation macros\<close>

lemma CHECK_INPUT_eq:
  "CHECK_INPUT name x =
     (if \<not> is_cuda x then Inl (Error (name @ '' must be a CUDA tensor''))
      else if \<not> is_contiguous x then Inl (Error (name @ '' must be contiguous''))
      else Inr ())"
  by (simp add: CHECK_INPUT_def CHECK_CUDA_def CHECK_CONTIGUOUS_def TORCH_CHECK_def)

lemma CHECK_INPUT_Inr: "(CHECK_INPUT name x = Inr u) = (is_cuda x \<and> is_contiguous x)"
  by (simp add: CHECK_INPUT_eq)

lemma TORCH_CHECK_Inr: "(TORCH_CHECK c msg = Inr u) = c"
  by (simp add: TORCH_CHECK_def)

lemma first_failure_Inr: "(first_failure cs = Inr u) = (\<forall>c \<in> set cs. c = Inr ())"
  by (induction cs rule: first_failure.induct) auto

lemma first_failure_not_Inr: "first_failure cs \<noteq> Inr () \<Longrightarrow> \<exists>e. first_failure cs = Inl e"
  by (cases "first_failure cs") auto

lemmas check_simps = first_failure_Inr CHECK_INPUT_Inr TORCH_CHECK_Inr

lemma is_cuda_device: "is_cuda x \<Longrightarrow> \<exists>i. device x = CUDA i"
  by (cases "device x") (auto simp: is_cuda_def)

lemma device_guard_CUDA:
  "device x = CUDA i \<Longrightarrow>
   device_guard (device_of x) body s =
     (case body (s\<lparr>current_device := i\<rparr>) of
        (r, s') \<Rightarrow> (Inr r, s'\<lparr>current_device := current_device s\<rparr>))"
  by (simp add: device_of_def)

lemma size_at_last: "sizes x \<noteq> [] \<Longrightarrow> size_at x (- 1) = Inr (last (sizes x))"
  by (cases "sizes x" rule: rev_cases) (auto simp: size_at_def maybe_wrap_dim_def dim_def nth_append)

lemma size_at_scalar: "sizes x = [] \<Longrightarrow> \<exists>e. size_at x (- 1) = Inl e"
  by (simp add: size_at_def maybe_wrap_dim_def dim_def)

text \<open>Each operation either passes all its checks and runs its kernel under the device
  guard, or fails with the state untouched, whatever the kernel is.\<close>

lemma query_vertical_pass:
  assumes "is_cuda data \<and> is_contiguous data \<and>
     is_cuda child \<and> is_contiguous child \<and>
     is_cuda indices \<and> is_contiguous indices \<and>
     is_cuda offset \<and> is_contiguous offset \<and>
     is_cuda invradius \<and> is_contiguous invradius \<and>
     dim indices = 2 \<and>
     is_floating_point indices"
  shows "query_vertical K data child indices offset invradius s =
     device_guard (device_of data) (K data child indices offset invradius) s"
proof -
  have "first_failure
      [CHECK_INPUT ''data'' data,
       CHECK_INPUT ''child'' child,
       CHECK_INPUT ''indices'' indices,
       CHECK_INPUT ''offset'' offset,
       CHECK_INPUT ''invradius'' invradius,
       TORCH_CHECK (dim indices = 2) ''Expected indices.dim() == 2 to be true, but got false.'',
       TORCH_CHECK (is_floating_point indices) ''Expected indices.is_floating_point() to be true, but got false.''] = Inr ()"
    using assms by (simp add: check_simps)
  then show ?thesis
    unfolding query_vertical_def by simp
qed

lemma query_vertical_fail:
  assumes "\<not> (is_cuda data \<and> is_contiguous data \<and>
     is_cuda child \<and> is_contiguous child \<and>
     is_cuda indices \<and> is_contiguous indices \<and>
     is_cuda offset \<and> is_contiguous offset \<and>
     is_cuda invradius \<and> is_contiguous invradius \<and>
     dim indices = 2 \<and>
     is_floating_point indices)"
  shows "\<exists>e. \<forall>K::('v, 'r) kernel5. query_vertical K data child indices offset invradius (s::'v state) = (Inl e, s)"
proof -
  define cs where "cs =
      [CHECK_INPUT ''data'' data,
       CHECK_INPUT ''child'' child,
       CHECK_INPUT ''indices'' indices,
       CHECK_INPUT ''offset'' offset,
       CHECK_INPUT ''invradius'' invradius,
       TORCH_CHECK (dim indices = 2) ''Expected indices.dim() == 2 to be true, but got false.'',
       TORCH_CHECK (is_floating_point indices) ''Expected indices.is_floating_point() to be true, but got false.'']"
  have "first_failure cs \<noteq> Inr ()"
    using assms by (simp add: cs_def check_simps)
  then obtain e where e: "first_failure cs = Inl e"
    using first_failure_not_Inr by blast
  have "\<forall>K::('v, 'r) kernel5. query_vertical K data child indices offset invradius s = (Inl e, s)"
    unfolding query_vertical_def cs_def [symmetric] e by simp
  then show ?thesis ..
qed

lemma query_vertical_backward_pass:
  assumes "is_cuda child \<and> is_contiguous child \<and>
     is_cuda grad_output \<and> is_contiguous grad_output \<and>
     is_cuda indices \<and> is_contiguous indices \<and>
     is_cuda offset \<and> is_contiguous offset \<and>
     is_cuda invradius \<and> is_contiguous invradius \<and>
     dim indices = 2 \<and>
     is_floating_point indices"
  shows "query_vertical_backward K child indices grad_output offset invradius s =
     device_guard (device_of grad_output) (K child indices grad_output offset invradius) s"
proof -
  have "first_failure
      [CHECK_INPUT ''child'' child,
       CHECK_INPUT ''grad_output'' grad_output,
       CHECK_INPUT ''indices'' indices,
       CHECK_INPUT ''offset'' offset,
       CHECK_INPUT ''invradius'' invradius,
       TORCH_CHECK (dim indices = 2) ''Expected indices.dim() == 2 to be true, but got false.'',
       TORCH_CHECK (is_floating_point indices) ''Expected indices.is_floating_point() to be true, but got false.''] = Inr ()"
    using assms by (simp add: check_simps)
  then show ?thesis
    unfolding query_vertical_backward_def by simp
qed

lemma query_vertical_backward_fail:
  assumes "\<not> (is_cuda child \<and> is_contiguous child \<and>
     is_cuda grad_output \<and> is_contiguous grad_output \<and>
     is_cuda indices \<and> is_contiguous indices \<and>
     is_cuda offset \<and> is_contiguous offset \<and>
     is_cuda invradius \<and> is_contiguous invradius \<and>
     dim indices = 2 \<and>
     is_floating_point indices)"
  shows "\<exists>e. \<forall>K::('v, 'r) kernel5. query_vertical_backward K child indices grad_output offset invradius (s::'v state) = (Inl e, s)"
proof -
  define cs where "cs =
      [CHECK_INPUT ''child'' child,
       CHECK_INPUT ''grad_output'' grad_output,
       CHECK_INPUT ''indices'' indices,
       CHECK_INPUT ''offset'' offset,
       CHECK_INPUT ''invradius'' invradius,
       TORCH_CHECK (dim indices = 2) ''Expected indices.dim() == 2 to be true, but got false.'',
       TORCH_CHECK (is_floating_point indices) ''Expected indices.is_floating_point() to be true, but got false.'']"
  have "first_failure cs \<noteq> Inr ()"
    using assms by (simp add: cs_def check_simps)
  then obtain e where e: "first_failure cs = Inl e"
    using first_failure_not_Inr by blast
  have "\<forall>K::('v, 'r) kernel5. query_vertical_backward K child indices grad_output offset invradius s = (Inl e, s)"
    unfolding query_vertical_backward_def cs_def [symmetric] e by simp
  then show ?thesis ..
qed

lemma assign_vertical_pass:
  assumes "is_cuda data \<and> is_contiguous data \<and>
     is_cuda child \<and> is_contiguous child \<and>
     is_cuda indices \<and> is_contiguous indices \<and>
     is_cuda values \<and> is_contiguous values \<and>
     is_cuda offset \<and> is_contiguous offset \<and>
     is_cuda invradius \<and> is_contiguous invradius \<and>
     dim indices = 2 \<and>
     dim values = 2 \<and>
     is_floating_point indices \<and>
     is_floating_point values"
  shows "assign_vertical K data child indices values offset invradius s =
     device_guard (device_of data) (K data child indices values offset invradius) s"
proof -
  have "first_failure
      [CHECK_INPUT ''data'' data,
       CHECK_INPUT ''child'' child,
       CHECK_INPUT ''indices'' indices,
       CHECK_INPUT ''values'' values,
       CHECK_INPUT ''offset'' offset,
       CHECK_INPUT ''invradius'' invradius,
       TORCH_CHECK (dim indices = 2) ''Expected indices.dim() == 2 to be true, but got false.'',
       TORCH_CHECK (dim values = 2) ''Expected values.dim() == 2 to be true, but got false.'',
       TORCH_CHECK (is_floating_point indices) ''Expected indices.is_floating_point() to be true, but got false.'',
       TORCH_CHECK (is_floating_point values) ''Expected values.is_floating_point() to be true, but got false.''] = Inr ()"
    using assms by (simp add: check_simps)
  then show ?thesis
    unfolding assign_vertical_def by simp
qed

lemma assign_vertical_fail:
  assumes "\<not> (is_cuda data \<and> is_contiguous data \<and>
     is_cuda child \<and> is_contiguous child \<and>
     is_cuda indices \<and> is_contiguous indices \<and>
     is_cuda values \<and> is_contiguous values \<and>
     is_cuda offset \<and> is_contiguous offset \<and>
     is_cuda invradius \<and> is_contiguous invradius \<and>
     dim indices = 2 \<and>
     dim values = 2 \<and>
     is_floating_point indices \<and>
     is_floating_point values)"
  shows "\<exists>e. \<forall>K::('v, 'r) kernel6. assign_vertical K data child indices values offset invradius (s::'v state) = (Inl e, s)"
proof -
  define cs where "cs =
      [CHECK_INPUT ''data'' data,
       CHECK_INPUT ''child'' child,
       CHECK_INPUT ''indices'' indices,
       CHECK_INPUT ''values'' values,
       CHECK_INPUT ''offset'' offset,
       CHECK_INPUT ''invradius'' invradius,
       TORCH_CHECK (dim indices = 2) ''Expected indices.dim() == 2 to be true, but got false.'',
       TORCH_CHECK (dim values = 2) ''Expected values.dim() == 2 to be true, but got false.'',
       TORCH_CHECK (is_floating_point indices) ''Expected indices.is_floating_point() to be true, but got false.'',
       TORCH_CHECK (is_floating_point values) ''Expected values.is_floating_point() to be true, but got false.'']"
  have "first_failure cs \<noteq> Inr ()"
    using assms by (simp add: cs_def check_simps)
  then obtain e where e: "first_failure cs = Inl e"
    using first_failure_not_Inr by blast
  have "\<forall>K::('v, 'r) kernel6. assign_vertical K data child indices values offset invradius s = (Inl e, s)"
    unfolding assign_vertical_def cs_def [symmetric] e by simp
  then show ?thesis ..
qed

lemma volume_render_pass:
  assumes "is_cuda data \<and> is_contiguous data \<and>
     is_cuda child \<and> is_contiguous child \<and>
     is_cuda origins \<and> is_contiguous origins \<and>
     is_cuda dirs \<and> is_contiguous dirs \<and>
     is_cuda vdirs \<and> is_contiguous vdirs \<and>
     is_cuda offset \<and> is_contiguous offset \<and>
     is_cuda invradius \<and> is_contiguous invradius"
    and "sizes data \<noteq> []" and "4 \<le> last (sizes data)"
  shows "volume_render K data child origins dirs vdirs offset invradius a b c s =
     (case K data child origins dirs vdirs offset invradius a b c s of
        (r, s') \<Rightarrow> (Inr r, s'))"
proof -
  have "first_failure
      [CHECK_INPUT ''data'' data,
       CHECK_INPUT ''child'' child,
       CHECK_INPUT ''origins'' origins,
       CHECK_INPUT ''dirs'' dirs,
       CHECK_INPUT ''vdirs'' vdirs,
       CHECK_INPUT ''offset'' offset,
       CHECK_INPUT ''invradius'' invradius,
       (case size_at data (- 1) of
          Inl e \<Rightarrow> Inl e
        | Inr n \<Rightarrow>
            TORCH_CHECK (4 \<le> n) ''Expected data.size(-1) >= 4 to be true, but got false.'')] = Inr ()"
    using assms by (simp add: check_simps size_at_last)
  then show ?thesis
    unfolding volume_render_def by simp
qed

lemma volume_render_fail:
  assumes "\<not> (is_cuda data \<and> is_contiguous data \<and>
     is_cuda child \<and> is_contiguous child \<and>
     is_cuda origins \<and> is_contiguous origins \<and>
     is_cuda dirs \<and> is_contiguous dirs \<and>
     is_cuda vdirs \<and> is_contiguous vdirs \<and>
     is_cuda offset \<and> is_contiguous offset \<and>
     is_cuda invradius \<and> is_contiguous invradius) \<or>
     sizes data = [] \<or> last (sizes data) < 4"
  shows "\<exists>e. \<forall>K::('v, 'f, 'r) kernel_render.
     volume_render K data child origins dirs vdirs offset invradius a b c (s::'v state) = (Inl e, s)"
proof -
  define cs where "cs =
      [CHECK_INPUT ''data'' data,
       CHECK_INPUT ''child'' child,
       CHECK_INPUT ''origins'' origins,
       CHECK_INPUT ''dirs'' dirs,
       CHECK_INPUT ''vdirs'' vdirs,
       CHECK_INPUT ''offset'' offset,
       CHECK_INPUT ''invradius'' invradius,
       (case size_at data (- 1) of
          Inl e \<Rightarrow> Inl e
        | Inr n \<Rightarrow>
            TORCH_CHECK (4 \<le> n) ''Expected data.size(-1) >= 4 to be true, but got false.'')]"
  have "(case size_at data (- 1) of
          Inl e \<Rightarrow> Inl e
        | Inr n \<Rightarrow>
            TORCH_CHECK (4 \<le> n) ''Expected data.size(-1) >= 4 to be true, but got false.'') \<noteq> Inr ()"
    if "sizes data = [] \<or> last (sizes data) < 4"
  proof (cases "sizes data = []")
    case True
    then show ?thesis using size_at_scalar [of data] by auto
  next
    case False
    with that show ?thesis by (simp add: size_at_last TORCH_CHECK_Inr)
  qed
  note size_bad = this
  have "(first_failure cs = Inr ()) =
     ((is_cuda data \<and> is_contiguous data \<and>
     is_cuda child \<and> is_contiguous child \<and>
     is_cuda origins \<and> is_contiguous origins \<and>
     is_cuda dirs \<and> is_contiguous dirs \<and>
     is_cuda vdirs \<and> is_contiguous vdirs \<and>
     is_cuda offset \<and> is_contiguous offset \<and>
     is_cuda invradius \<and> is_contiguous invradius) \<and>
     (case size_at data (- 1) of
          Inl e \<Rightarrow> Inl e
        | Inr n \<Rightarrow>
            TORCH_CHECK (4 \<le> n) ''Expected data.size(-1) >= 4 to be true, but got false.'') = Inr ())"
    by (simp add: cs_def check_simps)
  then have "first_failure cs \<noteq> Inr ()"
    using assms size_bad by blast
  then obtain e where e: "first_failure cs = Inl e"
    using first_failure_not_Inr by blast
  have "\<forall>K::('v, 'f, 'r) kernel_render.
     volume_render K data child origins dirs vdirs offset invradius a b c s = (Inl e, s)"
    unfolding volume_render_def cs_def [symmetric] e by simp
  then show ?thesis ..
qed

section \<open>Evaluating the example inputs\<close>

lemmas example_defs = cuda_tensor_def cpu_tensor_def empty_state_def is_cuda_def
  is_contiguous_def dim_def is_floating_point_def isFloatingType_def

section \<open>Validation in \<^verbatim>\<open>query_vertical\<close>\<close>

text \<open>
  Claim C1. \<^verbatim>\<open>query_vertical\<close> raises an error exactly when one of \<open>data\<close>, \<open>child\<close>,
  \<open>indices\<close>, \<open>offset\<close>, \<open>invradius\<close> is not a CUDA tensor or is not contiguous, or
  \<open>indices\<close> is not 2-dimensional, or \<open>indices\<close> is not of a floating-point type. When
  it raises, the state is untouched and the outcome is the same whatever the kernel is:
  nothing has been computed. Otherwise it runs the query kernel, with the device of
  \<open>data\<close> current, and returns the kernel's result.
\<close>

theorem query_vertical_raises_iff:
  fixes K :: "('v, 'r) kernel5"
  defines "valid \<equiv> \<lambda>data child indices offset invradius.
     is_cuda data \<and> is_contiguous data \<and>
     is_cuda child \<and> is_contiguous child \<and>
     is_cuda indices \<and> is_contiguous indices \<and>
     is_cuda offset \<and> is_contiguous offset \<and>
     is_cuda invradius \<and> is_contiguous invradius \<and>
     dim indices = 2 \<and> is_floating_point indices"
  shows
    "((\<exists>e. fst (query_vertical K data child indices offset invradius s) = Inl e) =
        (\<not> valid data child indices offset invradius)) \<and>
     (\<not> valid data child indices offset invradius \<longrightarrow>
        (\<exists>e. \<forall>K'::('v, 'r) kernel5.
           query_vertical K' data child indices offset invradius s = (Inl e, s))) \<and>
     (valid data child indices offset invradius \<longrightarrow>
        (\<exists>i. device data = CUDA i \<and>
           query_vertical K data child indices offset invradius s =
             (case K data child indices offset invradius (s\<lparr>current_device := i\<rparr>) of
                (r, s') \<Rightarrow> (Inr r, s'\<lparr>current_device := current_device s\<rparr>))))"
proof (cases "valid data child indices offset invradius")
  case True
  then obtain i where i: "device data = CUDA i"
    unfolding valid_def using is_cuda_device by blast
  have run: "query_vertical K data child indices offset invradius s =
      (case K data child indices offset invradius (s\<lparr>current_device := i\<rparr>) of
         (r, s') \<Rightarrow> (Inr r, s'\<lparr>current_device := current_device s\<rparr>))"
    using True unfolding valid_def
    by (simp only: query_vertical_pass device_guard_CUDA [OF i])
  have "\<not> (\<exists>e. fst (query_vertical K data child indices offset invradius s) = Inl e)"
    unfolding run by (simp split: prod.splits)
  with True i run show ?thesis by blast
next
  case False
  then obtain e where e: "\<forall>K'::('v, 'r) kernel5.
      query_vertical K' data child indices offset invradius s = (Inl e, s)"
    unfolding valid_def using query_vertical_fail [of data child indices offset invradius s]
    by blast
  then have "fst (query_vertical K data child indices offset invradius s) = Inl e"
    by simp
  with False e show ?thesis by blast
qed

theorem query_vertical_raises_iff_witness:
  "query_vertical rank_kernel5
     (cuda_tensor 0 [1, 2, 2, 2, 4] Float32 0) (cuda_tensor 0 [1, 2, 2, 2] Int32 1)
     (cuda_tensor 0 [1, 3] Float32 2) (cuda_tensor 0 [3] Float32 3)
     (cuda_tensor 0 [3] Float32 4) empty_state = (Inr 5, empty_state) \<and>
   (\<exists>e. query_vertical rank_kernel5
     (cuda_tensor 0 [1, 2, 2, 2, 4] Float32 0) (cuda_tensor 0 [1, 2, 2, 2] Int32 1)
     (cuda_tensor 0 [1, 3] Int64 2) (cuda_tensor 0 [3] Float32 3)
     (cuda_tensor 0 [3] Float32 4) empty_state = (Inl e, empty_state))"
proof -
  let ?d = "cuda_tensor 0 [1, 2, 2, 2, 4] Float32 0"
  let ?c = "cuda_tensor 0 [1, 2, 2, 2] Int32 1"
  let ?i = "cuda_tensor 0 [1, 3] Float32 2"
  let ?j = "cuda_tensor 0 [1, 3] Int64 2"
  let ?o = "cuda_tensor 0 [3] Float32 3"
  let ?r = "cuda_tensor 0 [3] Float32 4"
  have ok: "is_cuda ?d \<and> is_contiguous ?d \<and> is_cuda ?c \<and> is_contiguous ?c \<and>
      is_cuda ?i \<and> is_contiguous ?i \<and> is_cuda ?o \<and> is_contiguous ?o \<and>
      is_cuda ?r \<and> is_contiguous ?r \<and> dim ?i = 2 \<and> is_floating_point ?i"
    by (simp add: example_defs)
  from query_vertical_raises_iff [of rank_kernel5 ?d ?c ?i ?o ?r empty_state] ok
  obtain n where "device ?d = CUDA n"
    and "query_vertical rank_kernel5 ?d ?c ?i ?o ?r empty_state =
      (case rank_kernel5 ?d ?c ?i ?o ?r (empty_state\<lparr>current_device := n\<rparr>) of
         (r, s') \<Rightarrow> (Inr r, s'\<lparr>current_device := current_device empty_state\<rparr>))"
    by blast
  then have first: "query_vertical rank_kernel5 ?d ?c ?i ?o ?r empty_state = (Inr 5, empty_state)"
    by (simp add: rank_kernel5_def cuda_tensor_def empty_state_def)
  have bad: "\<not> (is_cuda ?d \<and> is_contiguous ?d \<and> is_cuda ?c \<and> is_contiguous ?c \<and>
      is_cuda ?j \<and> is_contiguous ?j \<and> is_cuda ?o \<and> is_contiguous ?o \<and>
      is_cuda ?r \<and> is_contiguous ?r \<and> dim ?j = 2 \<and> is_floating_point ?j)"
    by (simp add: example_defs)
  from query_vertical_raises_iff [of rank_kernel5 ?d ?c ?j ?o ?r empty_state] bad
  obtain e where "\<forall>K'::(real, nat) kernel5.
      query_vertical K' ?d ?c ?j ?o ?r empty_state = (Inl e, empty_state)"
    by blast
  then have "\<exists>e. query_vertical rank_kernel5 ?d ?c ?j ?o ?r empty_state = (Inl e, empty_state)"
    by blast
  with first show ?thesis by blast
qed

section \<open>The channel count in \<^verbatim>\<open>volume_render\<close>\<close>

text \<open>
  Claim C2. \<^verbatim>\<open>volume_render\<close> raises an error, with the state untouched and whatever the
  render kernel is, whenever the size of the last dimension of \<open>data\<close> is less than 4.
  When that size is at least 4 the channel count rejects nothing: the call raises exactly
  when one of its seven tensors is not a CUDA tensor or is not contiguous, and otherwise
  returns the result of the render kernel.
\<close>

theorem volume_render_channel_check:
  fixes K :: "('v, 'f, 'r) kernel_render"
  defines "placed \<equiv> \<lambda>data child origins dirs vdirs offset invradius.
     is_cuda data \<and> is_contiguous data \<and>
     is_cuda child \<and> is_contiguous child \<and>
     is_cuda origins \<and> is_contiguous origins \<and>
     is_cuda dirs \<and> is_contiguous dirs \<and>
     is_cuda vdirs \<and> is_contiguous vdirs \<and>
     is_cuda offset \<and> is_contiguous offset \<and>
     is_cuda invradius \<and> is_contiguous invradius"
  shows
    "(sizes data \<noteq> [] \<and> last (sizes data) < 4 \<longrightarrow>
        (\<exists>e. \<forall>K'::('v, 'f, 'r) kernel_render.
           volume_render K' data child origins dirs vdirs offset invradius a b c s = (Inl e, s))) \<and>
     (sizes data \<noteq> [] \<and> 4 \<le> last (sizes data) \<longrightarrow>
        ((\<exists>e. fst (volume_render K data child origins dirs vdirs offset invradius a b c s) = Inl e) =
           (\<not> placed data child origins dirs vdirs offset invradius)) \<and>
        (placed data child origins dirs vdirs offset invradius \<longrightarrow>
           volume_render K data child origins dirs vdirs offset invradius a b c s =
             (case K data child origins dirs vdirs offset invradius a b c s of
                (r, s') \<Rightarrow> (Inr r, s'))))"
proof (intro conjI impI)
  assume "sizes data \<noteq> [] \<and> last (sizes data) < 4"
  then show "\<exists>e. \<forall>K'::('v, 'f, 'r) kernel_render.
      volume_render K' data child origins dirs vdirs offset invradius a b c s = (Inl e, s)"
    using volume_render_fail [of data child origins dirs vdirs offset invradius a b c s]
    by blast
next
  assume enough: "sizes data \<noteq> [] \<and> 4 \<le> last (sizes data)"
  show "(\<exists>e. fst (volume_render K data child origins dirs vdirs offset invradius a b c s) = Inl e) =
      (\<not> placed data child origins dirs vdirs offset invradius)"
  proof (cases "placed data child origins dirs vdirs offset invradius")
    case True
    then have "volume_render K data child origins dirs vdirs offset invradius a b c s =
        (case K data child origins dirs vdirs offset invradius a b c s of
           (r, s') \<Rightarrow> (Inr r, s'))"
      unfolding placed_def using enough
        volume_render_pass [of data child origins dirs vdirs offset invradius K a b c s]
      by blast
    then have "\<not> (\<exists>e. fst (volume_render K data child origins dirs vdirs offset invradius a b c s) = Inl e)"
      by (simp split: prod.splits)
    with True show ?thesis by blast
  next
    case False
    then obtain e where "\<forall>K'::('v, 'f, 'r) kernel_render.
        volume_render K' data child origins dirs vdirs offset invradius a b c s = (Inl e, s)"
      unfolding placed_def
      using volume_render_fail [of data child origins dirs vdirs offset invradius a b c s]
      by blast
    then have "fst (volume_render K data child origins dirs vdirs offset invradius a b c s) = Inl e"
      by simp
    with False show ?thesis by blast
  qed
next
  assume enough: "sizes data \<noteq> [] \<and> 4 \<le> last (sizes data)"
    and "placed data child origins dirs vdirs offset invradius"
  then show "volume_render K data child origins dirs vdirs offset invradius a b c s =
      (case K data child origins dirs vdirs offset invradius a b c s of
         (r, s') \<Rightarrow> (Inr r, s'))"
    unfolding placed_def
    using volume_render_pass [of data child origins dirs vdirs offset invradius K a b c s]
    by blast
qed

theorem volume_render_channel_check_witness:
  "(\<exists>e. volume_render rank_kernel_render
     (cuda_tensor 0 [1, 2, 2, 2, 3] Float32 0) (cuda_tensor 0 [1, 2, 2, 2] Int32 1)
     (cuda_tensor 0 [1, 3] Float32 2) (cuda_tensor 0 [1, 3] Float32 3)
     (cuda_tensor 0 [1, 3] Float32 4) (cuda_tensor 0 [3] Float32 5)
     (cuda_tensor 0 [3] Float32 6) 1 0 1 empty_state = (Inl e, empty_state)) \<and>
   volume_render rank_kernel_render
     (cuda_tensor 0 [1, 2, 2, 2, 4] Float32 0) (cuda_tensor 0 [1, 2, 2, 2] Int32 1)
     (cuda_tensor 0 [1, 3] Float32 2) (cuda_tensor 0 [1, 3] Float32 3)
     (cuda_tensor 0 [1, 3] Float32 4) (cuda_tensor 0 [3] Float32 5)
     (cuda_tensor 0 [3] Float32 6) 1 0 1 empty_state = (Inr 5, empty_state)"
proof -
  let ?d3 = "cuda_tensor 0 [1, 2, 2, 2, 3] Float32 0"
  let ?d4 = "cuda_tensor 0 [1, 2, 2, 2, 4] Float32 0"
  let ?c = "cuda_tensor 0 [1, 2, 2, 2] Int32 1"
  let ?o = "cuda_tensor 0 [1, 3] Float32 2"
  let ?di = "cuda_tensor 0 [1, 3] Float32 3"
  let ?v = "cuda_tensor 0 [1, 3] Float32 4"
  let ?off = "cuda_tensor 0 [3] Float32 5"
  let ?r = "cuda_tensor 0 [3] Float32 6"
  have few: "sizes ?d3 \<noteq> [] \<and> last (sizes ?d3) < 4"
    by (simp add: cuda_tensor_def)
  from volume_render_channel_check [of ?d3 ?c ?o ?di ?v ?off ?r 1 0 1 empty_state rank_kernel_render] few
  obtain e where "\<forall>K'::(real, real, nat) kernel_render.
      volume_render K' ?d3 ?c ?o ?di ?v ?off ?r 1 0 1 empty_state = (Inl e, empty_state)"
    by blast
  then have first: "\<exists>e. volume_render rank_kernel_render ?d3 ?c ?o ?di ?v ?off ?r 1 0 1 empty_state
      = (Inl e, empty_state)"
    by blast
  have enough: "sizes ?d4 \<noteq> [] \<and> 4 \<le> last (sizes ?d4)"
    by (simp add: cuda_tensor_def)
  have placed: "is_cuda ?d4 \<and> is_contiguous ?d4 \<and> is_cuda ?c \<and> is_contiguous ?c \<and>
      is_cuda ?o \<and> is_contiguous ?o \<and> is_cuda ?di \<and> is_contiguous ?di \<and>
      is_cuda ?v \<and> is_contiguous ?v \<and> is_cuda ?off \<and> is_contiguous ?off \<and>
      is_cuda ?r \<and> is_contiguous ?r"
    by (simp add: example_defs)
  from volume_render_channel_check [of ?d4 ?c ?o ?di ?v ?off ?r 1 0 1 empty_state rank_kernel_render]
    enough placed
  have "volume_render rank_kernel_render ?d4 ?c ?o ?di ?v ?off ?r 1 0 1 empty_state =
      (case rank_kernel_render ?d4 ?c ?o ?di ?v ?off ?r 1 0 1 empty_state of
         (r, s') \<Rightarrow> (Inr r, s'))"
    by blast
  then have "volume_render rank_kernel_render ?d4 ?c ?o ?di ?v ?off ?r 1 0 1 empty_state =
      (Inr 5, empty_state)"
    by (simp add: rank_kernel_render_def cuda_tensor_def)
  with first show ?thesis by blast
qed

section \<open>Rank and element type\<close>

text \<open>
  Claim C3, as stated: in each of the four operations an input of wrong rank or wrong
  element type raises an error before the kernel is invoked, and \<^verbatim>\<open>volume_render\<close>
  rejects \<open>origins\<close>, \<open>dirs\<close> and \<open>vdirs\<close> that are not floating-point tensors of rank 2.
  The binding does not do that: the only ranks and element types it looks at are those
  of \<open>indices\<close> and \<open>values\<close>. With \<open>data\<close> of rank 1, where the source documents the
  shape \<open>(M, N, N, N, K)\<close>, \<^verbatim>\<open>query_vertical\<close> runs the kernel; with \<open>origins\<close> of rank 1
  and of an integer type, \<^verbatim>\<open>volume_render\<close> runs the kernel.
\<close>

theorem wrong_rank_counterexample:
  "dim (cuda_tensor 0 [4] Float32 0) = 1 \<and>
   query_vertical rank_kernel5
     (cuda_tensor 0 [4] Float32 0) (cuda_tensor 0 [1, 2, 2, 2] Int32 1)
     (cuda_tensor 0 [1, 3] Float32 2) (cuda_tensor 0 [3] Float32 3)
     (cuda_tensor 0 [3] Float32 4) empty_state = (Inr 1, empty_state) \<and>
   dim (cuda_tensor 0 [3] Int64 2) = 1 \<and>
   \<not> is_floating_point (cuda_tensor 0 [3] Int64 2) \<and>
   volume_render rank_kernel_render
     (cuda_tensor 0 [1, 2, 2, 2, 4] Float32 0) (cuda_tensor 0 [1, 2, 2, 2] Int32 1)
     (cuda_tensor 0 [3] Int64 2) (cuda_tensor 0 [1, 3] Float32 3)
     (cuda_tensor 0 [1, 3] Float32 4) (cuda_tensor 0 [3] Float32 5)
     (cuda_tensor 0 [3] Float32 6) 1 0 1 empty_state = (Inr 5, empty_state)"
proof -
  let ?d1 = "cuda_tensor 0 [4] Float32 0"
  let ?d = "cuda_tensor 0 [1, 2, 2, 2, 4] Float32 0"
  let ?c = "cuda_tensor 0 [1, 2, 2, 2] Int32 1"
  let ?i = "cuda_tensor 0 [1, 3] Float32 2"
  let ?o = "cuda_tensor 0 [3] Float32 3"
  let ?r = "cuda_tensor 0 [3] Float32 4"
  let ?org = "cuda_tensor 0 [3] Int64 2"
  let ?di = "cuda_tensor 0 [1, 3] Float32 3"
  let ?v = "cuda_tensor 0 [1, 3] Float32 4"
  let ?o' = "cuda_tensor 0 [3] Float32 5"
  let ?r' = "cuda_tensor 0 [3] Float32 6"
  have "is_cuda ?d1 \<and> is_contiguous ?d1 \<and> is_cuda ?c \<and> is_contiguous ?c \<and>
      is_cuda ?i \<and> is_contiguous ?i \<and> is_cuda ?o \<and> is_contiguous ?o \<and>
      is_cuda ?r \<and> is_contiguous ?r \<and> dim ?i = 2 \<and> is_floating_point ?i"
    by (simp add: example_defs)
  then have "query_vertical rank_kernel5 ?d1 ?c ?i ?o ?r empty_state =
      device_guard (device_of ?d1) (rank_kernel5 ?d1 ?c ?i ?o ?r) empty_state"
    by (rule query_vertical_pass)
  then have query: "query_vertical rank_kernel5 ?d1 ?c ?i ?o ?r empty_state = (Inr 1, empty_state)"
    by (simp add: device_of_def rank_kernel5_def cuda_tensor_def empty_state_def)
  have "is_cuda ?d \<and> is_contiguous ?d \<and> is_cuda ?c \<and> is_contiguous ?c \<and>
      is_cuda ?org \<and> is_contiguous ?org \<and> is_cuda ?di \<and> is_contiguous ?di \<and>
      is_cuda ?v \<and> is_contiguous ?v \<and> is_cuda ?o' \<and> is_contiguous ?o' \<and>
      is_cuda ?r' \<and> is_contiguous ?r'"
    and "sizes ?d \<noteq> []" and "4 \<le> last (sizes ?d)"
    by (simp_all add: example_defs)
  then have "volume_render rank_kernel_render ?d ?c ?org ?di ?v ?o' ?r' 1 0 1 empty_state =
      (case rank_kernel_render ?d ?c ?org ?di ?v ?o' ?r' 1 0 1 empty_state of
         (r, s') \<Rightarrow> (Inr r, s'))"
    by (rule volume_render_pass)
  then have render: "volume_render rank_kernel_render ?d ?c ?org ?di ?v ?o' ?r' 1 0 1 empty_state =
      (Inr 5, empty_state)"
    by (simp add: rank_kernel_render_def cuda_tensor_def)
  have "dim ?d1 = 1" and "dim ?org = 1" and "\<not> is_floating_point ?org"
    by (simp_all add: example_defs)
  with query render show ?thesis by blast
qed

text \<open>
  Claim C3, amended: \<^verbatim>\<open>query_vertical\<close>, \<^verbatim>\<open>query_vertical_backward\<close> and
  \<^verbatim>\<open>assign_vertical\<close> raise an error, with the state untouched and whatever the kernel
  is, whenever \<open>indices\<close> is not of rank 2 or not of a floating-point type, and
  \<^verbatim>\<open>assign_vertical\<close> also whenever \<open>values\<close> is not of rank 2 or not of a
  floating-point type.
\<close>

theorem indices_values_rank_dtype_checked:
  "(dim indices \<noteq> 2 \<or> \<not> is_floating_point indices \<longrightarrow>
      (\<exists>e. \<forall>K::('v, 'r) kernel5.
         query_vertical K data child indices offset invradius (s::'v state) = (Inl e, s)) \<and>
      (\<exists>e. \<forall>K::('v, 'r) kernel5.
         query_vertical_backward K child indices grad_output offset invradius s = (Inl e, s)) \<and>
      (\<exists>e. \<forall>K::('v, 'r) kernel6.
         assign_vertical K data child indices values offset invradius s = (Inl e, s))) \<and>
   (dim values \<noteq> 2 \<or> \<not> is_floating_point values \<longrightarrow>
      (\<exists>e. \<forall>K::('v, 'r) kernel6.
         assign_vertical K data child indices values offset invradius s = (Inl e, s)))"
proof (intro conjI impI)
  assume bad: "dim indices \<noteq> 2 \<or> \<not> is_floating_point indices"
  show "\<exists>e. \<forall>K::('v, 'r) kernel5.
      query_vertical K data child indices offset invradius s = (Inl e, s)"
    using bad by (intro query_vertical_fail) blast
  show "\<exists>e. \<forall>K::('v, 'r) kernel5.
      query_vertical_backward K child indices grad_output offset invradius s = (Inl e, s)"
    using bad by (intro query_vertical_backward_fail) blast
  show "\<exists>e. \<forall>K::('v, 'r) kernel6.
      assign_vertical K data child indices values offset invradius s = (Inl e, s)"
    using bad by (intro assign_vertical_fail) blast
next
  assume bad: "dim values \<noteq> 2 \<or> \<not> is_floating_point values"
  show "\<exists>e. \<forall>K::('v, 'r) kernel6.
      assign_vertical K data child indices values offset invradius s = (Inl e, s)"
    using bad by (intro assign_vertical_fail) blast
qed

theorem indices_values_rank_dtype_checked_witness:
  "(\<exists>e. query_vertical rank_kernel5
      (cuda_tensor 0 [1, 2, 2, 2, 4] Float32 0) (cuda_tensor 0 [1, 2, 2, 2] Int32 1)
      (cuda_tensor 0 [3] Float32 2) (cuda_tensor 0 [3] Float32 3)
      (cuda_tensor 0 [3] Float32 4) empty_state = (Inl e, empty_state)) \<and>
   (\<exists>e. assign_vertical clobber_kernel6
      (cuda_tensor 0 [1, 2, 2, 2, 4] Float32 0) (cuda_tensor 0 [1, 2, 2, 2] Int32 1)
      (cuda_tensor 0 [1, 3] Float32 2) (cuda_tensor 0 [1, 4] Int64 5)
      (cuda_tensor 0 [3] Float32 3) (cuda_tensor 0 [3] Float32 4) empty_state
        = (Inl e, empty_state))"
proof -
  let ?d = "cuda_tensor 0 [1, 2, 2, 2, 4] Float32 0"
  let ?c = "cuda_tensor 0 [1, 2, 2, 2] Int32 1"
  let ?i1 = "cuda_tensor 0 [3] Float32 2"
  let ?i2 = "cuda_tensor 0 [1, 3] Float32 2"
  let ?v = "cuda_tensor 0 [1, 4] Int64 5"
  let ?o = "cuda_tensor 0 [3] Float32 3"
  let ?r = "cuda_tensor 0 [3] Float32 4"
  have rank1: "dim ?i1 \<noteq> 2 \<or> \<not> is_floating_point ?i1"
    by (simp add: example_defs)
  from indices_values_rank_dtype_checked [of ?i1 ?d ?c ?o ?r empty_state ?o ?v] rank1
  obtain e where "\<forall>K::(real, nat) kernel5.
      query_vertical K ?d ?c ?i1 ?o ?r empty_state = (Inl e, empty_state)"
    by blast
  then have first: "\<exists>e. query_vertical rank_kernel5 ?d ?c ?i1 ?o ?r empty_state
      = (Inl e, empty_state)"
    by blast
  have ints: "dim ?v \<noteq> 2 \<or> \<not> is_floating_point ?v"
    by (simp add: example_defs)
  from indices_values_rank_dtype_checked [of ?i2 ?d ?c ?o ?r empty_state ?o ?v] ints
  obtain e where "\<forall>K::(real, nat) kernel6.
      assign_vertical K ?d ?c ?i2 ?v ?o ?r empty_state = (Inl e, empty_state)"
    by blast
  then have "\<exists>e. assign_vertical clobber_kernel6 ?d ?c ?i2 ?v ?o ?r empty_state
      = (Inl e, empty_state)"
    by blast
  with first show ?thesis by blast
qed

section \<open>Device placement\<close>

text \<open>
  Claim C4, as stated: every operation fails fast whenever its tensor arguments do not
  all reside on the same compute device. The binding checks of each tensor only that it
  is a CUDA tensor; it never compares two devices. Here \<open>data\<close> is on CUDA device 0, every
  other tensor on CUDA device 1, and \<^verbatim>\<open>query_vertical\<close> runs the kernel.
\<close>

theorem same_device_counterexample:
  "device (cuda_tensor 0 [1, 2, 2, 2, 4] Float32 0) \<noteq>
     device (cuda_tensor 1 [1, 2, 2, 2] Int32 1) \<and>
   query_vertical rank_kernel5
     (cuda_tensor 0 [1, 2, 2, 2, 4] Float32 0) (cuda_tensor 1 [1, 2, 2, 2] Int32 1)
     (cuda_tensor 1 [1, 3] Float32 2) (cuda_tensor 1 [3] Float32 3)
     (cuda_tensor 1 [3] Float32 4) empty_state = (Inr 5, empty_state)"
proof -
  let ?d = "cuda_tensor 0 [1, 2, 2, 2, 4] Float32 0"
  let ?c = "cuda_tensor 1 [1, 2, 2, 2] Int32 1"
  let ?i = "cuda_tensor 1 [1, 3] Float32 2"
  let ?o = "cuda_tensor 1 [3] Float32 3"
  let ?r = "cuda_tensor 1 [3] Float32 4"
  have "is_cuda ?d \<and> is_contiguous ?d \<and> is_cuda ?c \<and> is_contiguous ?c \<and>
      is_cuda ?i \<and> is_contiguous ?i \<and> is_cuda ?o \<and> is_contiguous ?o \<and>
      is_cuda ?r \<and> is_contiguous ?r \<and> dim ?i = 2 \<and> is_floating_point ?i"
    by (simp add: example_defs)
  then have "query_vertical rank_kernel5 ?d ?c ?i ?o ?r empty_state =
      device_guard (device_of ?d) (rank_kernel5 ?d ?c ?i ?o ?r) empty_state"
    by (rule query_vertical_pass)
  then have "query_vertical rank_kernel5 ?d ?c ?i ?o ?r empty_state = (Inr 5, empty_state)"
    by (simp add: device_of_def rank_kernel5_def cuda_tensor_def empty_state_def)
  moreover have "device ?d \<noteq> device ?c"
    by (simp add: cuda_tensor_def)
  ultimately show ?thesis by blast
qed

text \<open>
  Claim C4, amended: every one of the four operations fails fast, with the state untouched
  and whatever the kernel is, whenever one of its tensor arguments is not a CUDA tensor.
\<close>

theorem not_cuda_fails_fast:
  "(\<not> (is_cuda data \<and> is_cuda child \<and> is_cuda indices \<and> is_cuda offset \<and>
        is_cuda invradius) \<longrightarrow>
      (\<exists>e. \<forall>K::('v, 'r) kernel5.
         query_vertical K data child indices offset invradius (s::'v state) = (Inl e, s))) \<and>
   (\<not> (is_cuda child \<and> is_cuda indices \<and> is_cuda grad_output \<and> is_cuda offset \<and>
        is_cuda invradius) \<longrightarrow>
      (\<exists>e. \<forall>K::('v, 'r) kernel5.
         query_vertical_backward K child indices grad_output offset invradius s = (Inl e, s))) \<and>
   (\<not> (is_cuda data \<and> is_cuda child \<and> is_cuda indices \<and> is_cuda values \<and>
        is_cuda offset \<and> is_cuda invradius) \<longrightarrow>
      (\<exists>e. \<forall>K::('v, 'r) kernel6.
         assign_vertical K data child indices values offset invradius s = (Inl e, s))) \<and>
   (\<not> (is_cuda data \<and> is_cuda child \<and> is_cuda origins \<and> is_cuda dirs \<and>
        is_cuda vdirs \<and> is_cuda offset \<and> is_cuda invradius) \<longrightarrow>
      (\<exists>e. \<forall>K::('v, 'f, 'r) kernel_render.
         volume_render K data child origins dirs vdirs offset invradius a b c s = (Inl e, s)))"
proof (intro conjI impI)
  assume "\<not> (is_cuda data \<and> is_cuda child \<and> is_cuda indices \<and> is_cuda offset \<and>
      is_cuda invradius)"
  then show "\<exists>e. \<forall>K::('v, 'r) kernel5.
      query_vertical K data child indices offset invradius s = (Inl e, s)"
    by (intro query_vertical_fail) blast
next
  assume "\<not> (is_cuda child \<and> is_cuda indices \<and> is_cuda grad_output \<and> is_cuda offset \<and>
      is_cuda invradius)"
  then show "\<exists>e. \<forall>K::('v, 'r) kernel5.
      query_vertical_backward K child indices grad_output offset invradius s = (Inl e, s)"
    by (intro query_vertical_backward_fail) blast
next
  assume "\<not> (is_cuda data \<and> is_cuda child \<and> is_cuda indices \<and> is_cuda values \<and>
      is_cuda offset \<and> is_cuda invradius)"
  then show "\<exists>e. \<forall>K::('v, 'r) kernel6.
      assign_vertical K data child indices values offset invradius s = (Inl e, s)"
    by (intro assign_vertical_fail) blast
next
  assume "\<not> (is_cuda data \<and> is_cuda child \<and> is_cuda origins \<and> is_cuda dirs \<and>
      is_cuda vdirs \<and> is_cuda offset \<and> is_cuda invradius)"
  then show "\<exists>e. \<forall>K::('v, 'f, 'r) kernel_render.
      volume_render K data child origins dirs vdirs offset invradius a b c s = (Inl e, s)"
    by (intro volume_render_fail) blast
qed

theorem not_cuda_fails_fast_witness:
  "(\<exists>e. query_vertical rank_kernel5
      (cuda_tensor 0 [1, 2, 2, 2, 4] Float32 0) (cpu_tensor [1, 2, 2, 2] Int32 1)
      (cuda_tensor 0 [1, 3] Float32 2) (cuda_tensor 0 [3] Float32 3)
      (cuda_tensor 0 [3] Float32 4) empty_state = (Inl e, empty_state)) \<and>
   (\<exists>e. volume_render rank_kernel_render
      (cuda_tensor 0 [1, 2, 2, 2, 4] Float32 0) (cuda_tensor 0 [1, 2, 2, 2] Int32 1)
      (cpu_tensor [1, 3] Float32 2) (cuda_tensor 0 [1, 3] Float32 3)
      (cuda_tensor 0 [1, 3] Float32 4) (cuda_tensor 0 [3] Float32 5)
      (cuda_tensor 0 [3] Float32 6) 1 0 1 empty_state = (Inl e, empty_state))"
proof -
  let ?d = "cuda_tensor 0 [1, 2, 2, 2, 4] Float32 0"
  let ?c = "cuda_tensor 0 [1, 2, 2, 2] Int32 1"
  let ?ch = "cpu_tensor [1, 2, 2, 2] Int32 1"
  let ?i = "cuda_tensor 0 [1, 3] Float32 2"
  let ?oh = "cpu_tensor [1, 3] Float32 2"
  let ?di = "cuda_tensor 0 [1, 3] Float32 3"
  let ?v = "cuda_tensor 0 [1, 3] Float32 4"
  let ?o = "cuda_tensor 0 [3] Float32 3"
  let ?r = "cuda_tensor 0 [3] Float32 4"
  let ?o' = "cuda_tensor 0 [3] Float32 5"
  let ?r' = "cuda_tensor 0 [3] Float32 6"
  have host: "\<not> (is_cuda ?d \<and> is_cuda ?ch \<and> is_cuda ?i \<and> is_cuda ?o \<and> is_cuda ?r)"
    by (simp add: example_defs)
  have "\<exists>e. \<forall>K::(real, nat) kernel5.
      query_vertical K ?d ?ch ?i ?o ?r empty_state = (Inl e, empty_state)"
    using not_cuda_fails_fast [of ?d ?ch ?i ?o ?r empty_state ?i ?i ?i ?di ?v "1::real" 0 1] host
    by blast
  then have first: "\<exists>e. query_vertical rank_kernel5 ?d ?ch ?i ?o ?r empty_state
      = (Inl e, empty_state)"
    by blast
  have host': "\<not> (is_cuda ?d \<and> is_cuda ?c \<and> is_cuda ?oh \<and> is_cuda ?di \<and>
      is_cuda ?v \<and> is_cuda ?o' \<and> is_cuda ?r')"
    by (simp add: example_defs)
  have "\<exists>e. \<forall>K::(real, real, nat) kernel_render.
      volume_render K ?d ?c ?oh ?di ?v ?o' ?r' 1 0 1 empty_state = (Inl e, empty_state)"
    using not_cuda_fails_fast [of ?d ?c ?i ?o' ?r' empty_state ?i ?i ?oh ?di ?v "1::real" 0 1] host'
    by blast
  then have "\<exists>e. volume_render rank_kernel_render ?d ?c ?oh ?di ?v ?o' ?r' 1 0 1 empty_state
      = (Inl e, empty_state)"
    by blast
  with first show ?thesis by blast
qed

section \<open>A failed \<^verbatim>\<open>assign_vertical\<close> writes nothing\<close>

text \<open>
  Claim C5. When \<^verbatim>\<open>assign_vertical\<close> raises a validation error (a tensor that is not on a
  CUDA device or not contiguous, \<open>indices\<close> or \<open>values\<close> of the wrong rank or not of a
  floating-point type), no kernel is invoked and the buffer of \<open>data\<close> is unchanged.
  Each of these violations makes the call raise; and whenever the call raises, the state
  it returns is the state it was given, the buffer of \<open>data\<close> included, and any other
  kernel in place of the given one yields the same outcome.
\<close>

theorem assign_vertical_error_writes_nothing:
  fixes K :: "('v, 'r) kernel6"
  shows
    "(\<not> (is_cuda data \<and> is_contiguous data \<and>
          is_cuda child \<and> is_contiguous child \<and>
          is_cuda indices \<and> is_contiguous indices \<and>
          is_cuda values \<and> is_contiguous values \<and>
          is_cuda offset \<and> is_contiguous offset \<and>
          is_cuda invradius \<and> is_contiguous invradius \<and>
          dim indices = 2 \<and> dim values = 2 \<and>
          is_floating_point indices \<and> is_floating_point values) \<longrightarrow>
        (\<exists>e. fst (assign_vertical K data child indices values offset invradius s) = Inl e)) \<and>
     (\<forall>e. fst (assign_vertical K data child indices values offset invradius s) = Inl e \<longrightarrow>
        snd (assign_vertical K data child indices values offset invradius s) = s \<and>
        mem (snd (assign_vertical K data child indices values offset invradius s)) (storage data)
          = mem s (storage data) \<and>
        (\<forall>K'::('v, 'r) kernel6.
           assign_vertical K' data child indices values offset invradius s = (Inl e, s)))"
proof (cases "is_cuda data \<and> is_contiguous data \<and>
          is_cuda child \<and> is_contiguous child \<and>
          is_cuda indices \<and> is_contiguous indices \<and>
          is_cuda values \<and> is_contiguous values \<and>
          is_cuda offset \<and> is_contiguous offset \<and>
          is_cuda invradius \<and> is_contiguous invradius \<and>
          dim indices = 2 \<and> dim values = 2 \<and>
          is_floating_point indices \<and> is_floating_point values")
  case True
  then obtain i where i: "device data = CUDA i"
    using is_cuda_device by blast
  from True have "assign_vertical K data child indices values offset invradius s =
      device_guard (device_of data) (K data child indices values offset invradius) s"
    by (rule assign_vertical_pass)
  then have "\<forall>e. fst (assign_vertical K data child indices values offset invradius s) \<noteq> Inl e"
    by (simp add: device_guard_CUDA [OF i] split: prod.splits)
  with True show ?thesis by blast
next
  case False
  then obtain e where e: "\<forall>K'::('v, 'r) kernel6.
      assign_vertical K' data child indices values offset invradius s = (Inl e, s)"
    using assign_vertical_fail [of data child indices "values" offset invradius s] by blast
  then have here: "assign_vertical K data child indices values offset invradius s = (Inl e, s)"
    by blast
  show ?thesis
    unfolding here using e by simp
qed

theorem assign_vertical_error_writes_nothing_witness:
  "assign_vertical clobber_kernel6
      (cuda_tensor 0 [1, 2, 2, 2, 4] Float32 0) (cuda_tensor 0 [1, 2, 2, 2] Int32 1)
      (cuda_tensor 0 [1, 3] Float32 2) (cuda_tensor 0 [1, 4] Int64 5)
      (cuda_tensor 0 [3] Float32 3) (cuda_tensor 0 [3] Float32 4) empty_state
    = (Inl (Error ''Expected values.is_floating_point() to be true, but got false.''),
       empty_state) \<and>
   mem (snd (assign_vertical clobber_kernel6
      (cuda_tensor 0 [1, 2, 2, 2, 4] Float32 0) (cuda_tensor 0 [1, 2, 2, 2] Int32 1)
      (cuda_tensor 0 [1, 3] Float32 2) (cuda_tensor 0 [1, 4] Int64 5)
      (cuda_tensor 0 [3] Float32 3) (cuda_tensor 0 [3] Float32 4) empty_state))
     (storage (cuda_tensor 0 [1, 2, 2, 2, 4] Float32 0)) = []"
proof -
  let ?d = "cuda_tensor 0 [1, 2, 2, 2, 4] Float32 0"
  let ?c = "cuda_tensor 0 [1, 2, 2, 2] Int32 1"
  let ?i = "cuda_tensor 0 [1, 3] Float32 2"
  let ?v = "cuda_tensor 0 [1, 4] Int64 5"
  let ?o = "cuda_tensor 0 [3] Float32 3"
  let ?r = "cuda_tensor 0 [3] Float32 4"
  let ?run = "assign_vertical clobber_kernel6 ?d ?c ?i ?v ?o ?r empty_state"
  have raised: "fst ?run =
      Inl (Error ''Expected values.is_floating_point() to be true, but got false.'')"
    by (simp add: assign_vertical_def CHECK_INPUT_eq TORCH_CHECK_def example_defs)
  with assign_vertical_error_writes_nothing [of ?d ?c ?i ?v ?o ?r clobber_kernel6 empty_state]
  have "snd ?run = empty_state"
    and "mem (snd ?run) (storage ?d) = mem empty_state (storage ?d)"
    by blast+
  with raised show ?thesis
    by (simp add: empty_state_def prod_eq_iff)
qed

section \<open>Which buffers the operations write\<close>

lemma query_vertical_fail_state:
  fixes K :: "('v, 'r) kernel5"
  assumes "\<not> (is_cuda data \<and> is_contiguous data \<and>
     is_cuda child \<and> is_contiguous child \<and>
     is_cuda indices \<and> is_contiguous indices \<and>
     is_cuda offset \<and> is_contiguous offset \<and>
     is_cuda invradius \<and> is_contiguous invradius \<and>
     dim indices = 2 \<and>
     is_floating_point indices)"
  shows "snd (query_vertical K data child indices offset invradius s) = s"
proof -
  obtain e where "\<forall>K'::('v, 'r) kernel5.
      query_vertical K' data child indices offset invradius s = (Inl e, s)"
    using query_vertical_fail [OF assms] by blast
  then show ?thesis by simp
qed

lemma query_vertical_backward_fail_state:
  fixes K :: "('v, 'r) kernel5"
  assumes "\<not> (is_cuda child \<and> is_contiguous child \<and>
     is_cuda grad_output \<and> is_contiguous grad_output \<and>
     is_cuda indices \<and> is_contiguous indices \<and>
     is_cuda offset \<and> is_contiguous offset \<and>
     is_cuda invradius \<and> is_contiguous invradius \<and>
     dim indices = 2 \<and>
     is_floating_point indices)"
  shows "snd (query_vertical_backward K child indices grad_output offset invradius s) = s"
proof -
  obtain e where "\<forall>K'::('v, 'r) kernel5.
      query_vertical_backward K' child indices grad_output offset invradius s = (Inl e, s)"
    using query_vertical_backward_fail [OF assms] by blast
  then show ?thesis by simp
qed

lemma assign_vertical_fail_state:
  fixes K :: "('v, 'r) kernel6"
  assumes "\<not> (is_cuda data \<and> is_contiguous data \<and>
     is_cuda child \<and> is_contiguous child \<and>
     is_cuda indices \<and> is_contiguous indices \<and>
     is_cuda values \<and> is_contiguous values \<and>
     is_cuda offset \<and> is_contiguous offset \<and>
     is_cuda invradius \<and> is_contiguous invradius \<and>
     dim indices = 2 \<and>
     dim values = 2 \<and>
     is_floating_point indices \<and>
     is_floating_point values)"
  shows "snd (assign_vertical K data child indices values offset invradius s) = s"
proof -
  obtain e where "\<forall>K'::('v, 'r) kernel6.
      assign_vertical K' data child indices values offset invradius s = (Inl e, s)"
    using assign_vertical_fail [OF assms] by blast
  then show ?thesis by simp
qed

lemma volume_render_fail_state:
  fixes K :: "('v, 'f, 'r) kernel_render"
  assumes "\<not> (is_cuda data \<and> is_contiguous data \<and>
     is_cuda child \<and> is_contiguous child \<and>
     is_cuda origins \<and> is_contiguous origins \<and>
     is_cuda dirs \<and> is_contiguous dirs \<and>
     is_cuda vdirs \<and> is_contiguous vdirs \<and>
     is_cuda offset \<and> is_contiguous offset \<and>
     is_cuda invradius \<and> is_contiguous invradius) \<or>
     sizes data = [] \<or> last (sizes data) < 4"
  shows "snd (volume_render K data child origins dirs vdirs offset invradius a b c s) = s"
proof -
  obtain e where "\<forall>K'::('v, 'f, 'r) kernel_render.
      volume_render K' data child origins dirs vdirs offset invradius a b c s = (Inl e, s)"
    using volume_render_fail [OF assms, of a b c s] by blast
  then show ?thesis by simp
qed

text \<open>
  Claim C6. \<^verbatim>\<open>query_vertical\<close>, \<^verbatim>\<open>query_vertical_backward\<close> and \<^verbatim>\<open>volume_render\<close> leave
  the buffers of \<open>data\<close> and \<open>child\<close> unchanged: they return the state they were given.
  \<^verbatim>\<open>assign_vertical\<close> changes no buffer but that of \<open>data\<close>, so it leaves \<open>child\<close>
  unchanged when \<open>child\<close> is a buffer of its own, and it does change \<open>data\<close> in some
  call. The kernels are the ones modelled from the specification, for any numbers they
  may compute.
\<close>

theorem only_assign_vertical_writes_data:
  "snd (query_vertical (query_vertical_cuda f1) data child indices offset invradius s) = s \<and>
   snd (query_vertical_backward (query_vertical_backward_cuda f2)
          child indices grad_output offset invradius s) = s \<and>
   snd (volume_render (volume_render_cuda f3)
          data child origins dirs vdirs offset invradius a b c s) = s \<and>
   (\<forall>x. x \<noteq> storage data \<longrightarrow>
      mem (snd (assign_vertical (assign_vertical_cuda f4)
                  data child indices values offset invradius s)) x = mem s x) \<and>
   (storage child \<noteq> storage data \<longrightarrow>
      mem (snd (assign_vertical (assign_vertical_cuda f4)
                  data child indices values offset invradius s)) (storage child)
        = mem s (storage child)) \<and>
   (\<exists>g d c i v off r t.
      mem (snd (assign_vertical (assign_vertical_cuda g) d c i v off r (t::'v state)))
        (storage d) \<noteq> mem t (storage d))"
proof (intro conjI)
  show "snd (query_vertical (query_vertical_cuda f1) data child indices offset invradius s) = s"
  proof (cases "is_cuda data \<and> is_contiguous data \<and> is_cuda child \<and> is_contiguous child \<and>
      is_cuda indices \<and> is_contiguous indices \<and> is_cuda offset \<and> is_contiguous offset \<and>
      is_cuda invradius \<and> is_contiguous invradius \<and>
      dim indices = 2 \<and> is_floating_point indices")
    case True
    then obtain i where i: "device data = CUDA i"
      using is_cuda_device by blast
    show ?thesis
      unfolding query_vertical_pass [OF True]
      by (simp add: device_guard_CUDA [OF i] query_vertical_cuda_def)
  next
    case False
    from False show ?thesis by (rule query_vertical_fail_state)
  qed
  show "snd (query_vertical_backward (query_vertical_backward_cuda f2)
          child indices grad_output offset invradius s) = s"
  proof (cases "is_cuda child \<and> is_contiguous child \<and>
      is_cuda grad_output \<and> is_contiguous grad_output \<and>
      is_cuda indices \<and> is_contiguous indices \<and> is_cuda offset \<and> is_contiguous offset \<and>
      is_cuda invradius \<and> is_contiguous invradius \<and>
      dim indices = 2 \<and> is_floating_point indices")
    case True
    then obtain i where i: "device grad_output = CUDA i"
      using is_cuda_device by blast
    show ?thesis
      unfolding query_vertical_backward_pass [OF True]
      by (simp add: device_guard_CUDA [OF i] query_vertical_backward_cuda_def)
  next
    case False
    from False show ?thesis by (rule query_vertical_backward_fail_state)
  qed
  show "snd (volume_render (volume_render_cuda f3)
          data child origins dirs vdirs offset invradius a b c s) = s"
  proof (cases "(is_cuda data \<and> is_contiguous data \<and>
       is_cuda child \<and> is_contiguous child \<and>
       is_cuda origins \<and> is_contiguous origins \<and>
       is_cuda dirs \<and> is_contiguous dirs \<and>
       is_cuda vdirs \<and> is_contiguous vdirs \<and>
       is_cuda offset \<and> is_contiguous offset \<and>
       is_cuda invradius \<and> is_contiguous invradius) \<and>
       sizes data \<noteq> [] \<and> 4 \<le> last (sizes data)")
    case True
    then show ?thesis
      by (simp add: volume_render_pass volume_render_cuda_def)
  next
    case False
    then have "\<not> (is_cuda data \<and> is_contiguous data \<and>
       is_cuda child \<and> is_contiguous child \<and>
       is_cuda origins \<and> is_contiguous origins \<and>
       is_cuda dirs \<and> is_contiguous dirs \<and>
       is_cuda vdirs \<and> is_contiguous vdirs \<and>
       is_cuda offset \<and> is_contiguous offset \<and>
       is_cuda invradius \<and> is_contiguous invradius) \<or>
       sizes data = [] \<or> last (sizes data) < 4"
      by auto
    then show ?thesis by (rule volume_render_fail_state)
  qed
  have frame: "mem (snd (assign_vertical (assign_vertical_cuda f4)
                  data child indices values offset invradius s)) x = mem s x"
    if "x \<noteq> storage data" for x
  proof (cases "is_cuda data \<and> is_contiguous data \<and>
          is_cuda child \<and> is_contiguous child \<and>
          is_cuda indices \<and> is_contiguous indices \<and>
          is_cuda values \<and> is_contiguous values \<and>
          is_cuda offset \<and> is_contiguous offset \<and>
          is_cuda invradius \<and> is_contiguous invradius \<and>
          dim indices = 2 \<and> dim values = 2 \<and>
          is_floating_point indices \<and> is_floating_point values")
    case True
    then obtain i where i: "device data = CUDA i"
      using is_cuda_device by blast
    show ?thesis
      unfolding assign_vertical_pass [OF True]
      using that by (simp add: device_guard_CUDA [OF i] assign_vertical_cuda_def)
  next
    case False
    show ?thesis by (simp only: assign_vertical_fail_state [OF False])
  qed
  then show "\<forall>x. x \<noteq> storage data \<longrightarrow>
      mem (snd (assign_vertical (assign_vertical_cuda f4)
                  data child indices values offset invradius s)) x = mem s x"
    by blast
  from frame show "storage child \<noteq> storage data \<longrightarrow>
      mem (snd (assign_vertical (assign_vertical_cuda f4)
                  data child indices values offset invradius s)) (storage child)
        = mem s (storage child)"
    by blast
  show "\<exists>g d c i v off r t.
      mem (snd (assign_vertical (assign_vertical_cuda g) d c i v off r (t::'v state)))
        (storage d) \<noteq> mem t (storage d)"
  proof -
    let ?d = "cuda_tensor 0 [1, 2, 2, 2, 4] Float32 0"
    let ?c = "cuda_tensor 0 [1, 2, 2, 2] Int32 1"
    let ?i = "cuda_tensor 0 [1, 3] Float32 2"
    let ?v = "cuda_tensor 0 [1, 4] Float32 5"
    let ?o = "cuda_tensor 0 [3] Float32 3"
    let ?r = "cuda_tensor 0 [3] Float32 4"
    let ?t = "\<lparr>mem = (\<lambda>x. []), current_device = 0\<rparr> :: 'v state"
    let ?g = "\<lambda>vs::'v view list. [undefined :: 'v]"
    have ok: "is_cuda ?d \<and> is_contiguous ?d \<and>
          is_cuda ?c \<and> is_contiguous ?c \<and>
          is_cuda ?i \<and> is_contiguous ?i \<and>
          is_cuda ?v \<and> is_contiguous ?v \<and>
          is_cuda ?o \<and> is_contiguous ?o \<and>
          is_cuda ?r \<and> is_contiguous ?r \<and>
          dim ?i = 2 \<and> dim ?v = 2 \<and>
          is_floating_point ?i \<and> is_floating_point ?v"
      by (simp add: example_defs)
    have "mem (snd (assign_vertical (assign_vertical_cuda ?g) ?d ?c ?i ?v ?o ?r ?t)) (storage ?d)
        \<noteq> mem ?t (storage ?d)"
      unfolding assign_vertical_pass [OF ok]
      by (simp add: device_of_def assign_vertical_cuda_def cuda_tensor_def)
    then show ?thesis by blast
  qed
qed

theorem only_assign_vertical_writes_data_witness:
  "snd (query_vertical (query_vertical_cuda length)
     (cuda_tensor 0 [1, 1, 1, 1, 4] Float32 0) (cuda_tensor 0 [1, 1, 1, 1] Int32 1)
     (cuda_tensor 0 [1, 3] Float32 2) (cuda_tensor 0 [3] Float32 4)
     (cuda_tensor 0 [3] Float32 5) example_state) = example_state \<and>
   mem (snd (assign_vertical (assign_vertical_cuda (\<lambda>vs. snd (vs ! 3)))
     (cuda_tensor 0 [1, 1, 1, 1, 4] Float32 0) (cuda_tensor 0 [1, 1, 1, 1] Int32 1)
     (cuda_tensor 0 [1, 3] Float32 2) (cuda_tensor 0 [1, 4] Float32 3)
     (cuda_tensor 0 [3] Float32 4) (cuda_tensor 0 [3] Float32 5) example_state)) 1 = [0] \<and>
   mem (snd (assign_vertical (assign_vertical_cuda (\<lambda>vs. snd (vs ! 3)))
     (cuda_tensor 0 [1, 1, 1, 1, 4] Float32 0) (cuda_tensor 0 [1, 1, 1, 1] Int32 1)
     (cuda_tensor 0 [1, 3] Float32 2) (cuda_tensor 0 [1, 4] Float32 3)
     (cuda_tensor 0 [3] Float32 4) (cuda_tensor 0 [3] Float32 5) example_state)) 0
     = [9, 8, 7, 6]"
proof -
  let ?d = "cuda_tensor 0 [1, 1, 1, 1, 4] Float32 0"
  let ?c = "cuda_tensor 0 [1, 1, 1, 1] Int32 1"
  let ?i = "cuda_tensor 0 [1, 3] Float32 2"
  let ?v = "cuda_tensor 0 [1, 4] Float32 3"
  let ?o = "cuda_tensor 0 [3] Float32 4"
  let ?r = "cuda_tensor 0 [3] Float32 5"
  let ?g = "\<lambda>vs::real view list. snd (vs ! 3)"
  note fact = only_assign_vertical_writes_data [of length ?d ?c ?i ?o ?r example_state
      length ?i "\<lambda>vs a b c. length vs" ?i ?i ?i "0::real" 0 0 ?g ?v]
  have apart: "storage ?c \<noteq> storage ?d"
    by (simp add: cuda_tensor_def)
  from fact have first: "snd (query_vertical (query_vertical_cuda length) ?d ?c ?i ?o ?r
      example_state) = example_state"
    by blast
  from fact apart have "mem (snd (assign_vertical (assign_vertical_cuda ?g)
      ?d ?c ?i ?v ?o ?r example_state)) (storage ?c) = mem example_state (storage ?c)"
    by blast
  then have second: "mem (snd (assign_vertical (assign_vertical_cuda ?g)
      ?d ?c ?i ?v ?o ?r example_state)) 1 = [0]"
    by (simp add: cuda_tensor_def example_state_def)
  have ok: "is_cuda ?d \<and> is_contiguous ?d \<and>
      is_cuda ?c \<and> is_contiguous ?c \<and>
      is_cuda ?i \<and> is_contiguous ?i \<and>
      is_cuda ?v \<and> is_contiguous ?v \<and>
      is_cuda ?o \<and> is_contiguous ?o \<and>
      is_cuda ?r \<and> is_contiguous ?r \<and>
      dim ?i = 2 \<and> dim ?v = 2 \<and>
      is_floating_point ?i \<and> is_floating_point ?v"
    by (simp add: example_defs)
  have third: "mem (snd (assign_vertical (assign_vertical_cuda ?g)
      ?d ?c ?i ?v ?o ?r example_state)) 0 = [9, 8, 7, 6]"
    unfolding assign_vertical_pass [OF ok]
    by (simp add: device_of_def assign_vertical_cuda_def view_def cuda_tensor_def
        example_state_def)
  from first second third show ?thesis by blast
qed

section \<open>The gradient does not depend on the contents of \<open>data\<close>\<close>

lemma query_vertical_backward_fail_fst:
  assumes "\<not> (is_cuda child \<and> is_contiguous child \<and>
     is_cuda grad_output \<and> is_contiguous grad_output \<and>
     is_cuda indices \<and> is_contiguous indices \<and>
     is_cuda offset \<and> is_contiguous offset \<and>
     is_cuda invradius \<and> is_contiguous invradius \<and>
     dim indices = 2 \<and>
     is_floating_point indices)"
  shows "fst (query_vertical_backward K child indices grad_output offset invradius s) =
         fst (query_vertical_backward K child indices grad_output offset invradius s')"
proof -
  define cs where "cs =
      [CHECK_INPUT ''child'' child,
       CHECK_INPUT ''grad_output'' grad_output,
       CHECK_INPUT ''indices'' indices,
       CHECK_INPUT ''offset'' offset,
       CHECK_INPUT ''invradius'' invradius,
       TORCH_CHECK (dim indices = 2) ''Expected indices.dim() == 2 to be true, but got false.'',
       TORCH_CHECK (is_floating_point indices)
         ''Expected indices.is_floating_point() to be true, but got false.'']"
  have "first_failure cs \<noteq> Inr ()"
    using assms by (simp add: cs_def check_simps)
  then obtain e where e: "first_failure cs = Inl e"
    using first_failure_not_Inr by blast
  show ?thesis
    unfolding query_vertical_backward_def cs_def [symmetric] e by simp
qed

text \<open>
  Claim C10. \<^verbatim>\<open>query_vertical_backward\<close> takes \<open>child\<close>, \<open>indices\<close>, \<open>grad_output\<close>,
  \<open>offset\<close> and \<open>invradius\<close> and no handle to \<open>data\<close>. For a buffer \<open>data\<close> that is none
  of the buffers of these five tensors, two states of the device memory that differ at
  most in the contents of \<open>data\<close> give the same result, error or gradient. The kernel is
  the one modelled from the specification, for any numbers it may compute.
\<close>

theorem query_vertical_backward_ignores_data:
  assumes "storage data \<notin>
      {storage child, storage indices, storage grad_output, storage offset, storage invradius}"
    and "\<forall>x. x \<noteq> storage data \<longrightarrow> mem s x = mem s' x"
  shows "fst (query_vertical_backward (query_vertical_backward_cuda f)
                child indices grad_output offset invradius s) =
         fst (query_vertical_backward (query_vertical_backward_cuda f)
                child indices grad_output offset invradius s')"
proof (cases "is_cuda child \<and> is_contiguous child \<and>
      is_cuda grad_output \<and> is_contiguous grad_output \<and>
      is_cuda indices \<and> is_contiguous indices \<and> is_cuda offset \<and> is_contiguous offset \<and>
      is_cuda invradius \<and> is_contiguous invradius \<and>
      dim indices = 2 \<and> is_floating_point indices")
  case True
  then obtain i where i: "device grad_output = CUDA i"
    using is_cuda_device by blast
  have same: "view s x = view s' x"
    if "x \<in> {child, indices, grad_output, offset, invradius}" for x
    using that assms by (auto simp: view_def)
  show ?thesis
    unfolding query_vertical_backward_pass [OF True]
    by (simp add: device_guard_CUDA [OF i] query_vertical_backward_cuda_def view_def same [unfolded view_def])
next
  case False
  then show ?thesis by (rule query_vertical_backward_fail_fst)
qed

theorem query_vertical_backward_ignores_data_witness:
  "fst (query_vertical_backward (query_vertical_backward_cuda (map snd))
     (cuda_tensor 0 [1, 1, 1, 1] Int32 1) (cuda_tensor 0 [1, 3] Float32 2)
     (cuda_tensor 0 [1, 4] Float32 3) (cuda_tensor 0 [3] Float32 4)
     (cuda_tensor 0 [3] Float32 5) (example_state\<lparr>mem := (mem example_state)(0 := [5, 5, 5, 5])\<rparr>))
   = Inr [[0], [1 / 2, 1 / 2, 1 / 2], [9, 8, 7, 6], [], []]"
proof -
  let ?c = "cuda_tensor 0 [1, 1, 1, 1] Int32 1"
  let ?i = "cuda_tensor 0 [1, 3] Float32 2"
  let ?g = "cuda_tensor 0 [1, 4] Float32 3"
  let ?o = "cuda_tensor 0 [3] Float32 4"
  let ?r = "cuda_tensor 0 [3] Float32 5"
  let ?d = "cuda_tensor 0 [1, 1, 1, 1, 4] Float32 0"
  let ?s' = "example_state\<lparr>mem := (mem example_state)(0 := [5, 5, 5, 5])\<rparr>"
  have apart: "storage ?d \<notin> {storage ?c, storage ?i, storage ?g, storage ?o, storage ?r}"
    by (simp add: cuda_tensor_def)
  have differ: "\<forall>x. x \<noteq> storage ?d \<longrightarrow> mem ?s' x = mem example_state x"
    by (simp add: cuda_tensor_def)
  have ok: "is_cuda ?c \<and> is_contiguous ?c \<and>
      is_cuda ?g \<and> is_contiguous ?g \<and>
      is_cuda ?i \<and> is_contiguous ?i \<and>
      is_cuda ?o \<and> is_contiguous ?o \<and>
      is_cuda ?r \<and> is_contiguous ?r \<and>
      dim ?i = 2 \<and> is_floating_point ?i"
    by (simp add: example_defs)
  have "fst (query_vertical_backward (query_vertical_backward_cuda (map snd))
      ?c ?i ?g ?o ?r example_state) = Inr [[0], [1 / 2, 1 / 2, 1 / 2], [9, 8, 7, 6], [], []]"
    unfolding query_vertical_backward_pass [OF ok]
    by (simp add: device_of_def query_vertical_backward_cuda_def view_def cuda_tensor_def
        example_state_def)
  with query_vertical_backward_ignores_data [OF apart differ, of "map snd"]
  show ?thesis by simp
qed

section \<open>The coordinate mapper\<close>

text \<open>
  Claim C7. The coordinate mapper is a function of the point, the offset and the inverse
  radius alone, and maps a world-space point \<open>x\<close> to \<open>(x + offset) * invradius\<close>,
  component by component. Nothing is clamped: when no component of \<open>invradius\<close> is zero,
  every triple of reals, inside the unit cube or not, is the image of a point.
\<close>

theorem coord_map_affine_unclamped:
  "fst (coord_map offset invradius x) = (fst x + fst offset) * fst invradius \<and>
   fst (snd (coord_map offset invradius x)) =
     (fst (snd x) + fst (snd offset)) * fst (snd invradius) \<and>
   snd (snd (coord_map offset invradius x)) =
     (snd (snd x) + snd (snd offset)) * snd (snd invradius) \<and>
   (fst invradius \<noteq> 0 \<and> fst (snd invradius) \<noteq> 0 \<and> snd (snd invradius) \<noteq> 0 \<longrightarrow>
      coord_map offset invradius
        (fst g / fst invradius - fst offset,
         fst (snd g) / fst (snd invradius) - fst (snd offset),
         snd (snd g) / snd (snd invradius) - snd (snd offset)) = g)"
proof -
  obtain o1 o2 o3 where off: "offset = (o1, o2, o3)" by (cases offset) auto
  obtain r1 r2 r3 where r: "invradius = (r1, r2, r3)" by (cases invradius) auto
  obtain x1 x2 x3 where x: "x = (x1, x2, x3)" by (cases x) auto
  obtain g1 g2 g3 where g: "g = (g1, g2, g3)" by (cases g) auto
  show ?thesis
    unfolding off r x g by simp
qed

theorem coord_map_affine_unclamped_witness:
  "coord_map (1, 1, 1) (1 / 2, 1 / 2, 1 / 2) (3, - 5, 0) = (2, - 2, 1 / 2) \<and>
   coord_map (1, 1, 1) (1 / 2, 1 / 2, 1 / 2) (3, - 5, 0) =
     coord_map (1, 1, 1) (1 / 2, 1 / 2, 1 / 2)
       (2 / (1 / 2) - 1, - 2 / (1 / 2) - 1, (1 / 2) / (1 / 2) - 1)"
  using coord_map_affine_unclamped [of "(1, 1, 1)" "(1 / 2, 1 / 2, 1 / 2)" "(3, - 5, 0)"
      "(2, - 2, 1 / 2)"]
  by simp

section \<open>The trilinear weights\<close>

lemma sum_list_trilinear_weights: "sum_list (trilinear_weights f) = 1"
proof -
  obtain fx fy fz where f: "f = (fx, fy, fz)" by (cases f) auto
  show ?thesis
    unfolding f by (simp add: algebra_simps)
qed

lemma length_trilinear_weights: "length (trilinear_weights f) = 8"
proof -
  obtain fx fy fz where f: "f = (fx, fy, fz)" by (cases f) auto
  show ?thesis
    unfolding f by simp
qed

text \<open>
  Claim C9. For every query coordinate, on a cell corner, edge or face or not, and for
  every grid, the query engine computes eight trilinear weights and they sum to 1,
  whatever the fractional offset within the cell is. The sum is exact: the weights are
  real numbers here, not floating-point numbers.
\<close>

theorem query_weights_sum_to_one:
  "length (query_weights levels child N g) = 8 \<and>
   sum_list (query_weights levels child N g) = 1"
proof -
  obtain tile gx gy gz where "descend levels child N 0 g = (tile, (gx, gy, gz))"
    by (metis prod.exhaust)
  then show ?thesis
    unfolding query_weights_def
    by (simp only: prod.case sum_list_trilinear_weights length_trilinear_weights)
qed

theorem query_weights_sum_to_one_witness:
  "query_weights 1 (\<lambda>tile cell. 0) 2 (0, 1 / 2, 3 / 4) = [1 / 2, 1 / 2, 0, 0, 0, 0, 0, 0] \<and>
   sum_list (query_weights 1 (\<lambda>tile cell. 0) 2 (0, 1 / 2, 3 / 4)) = 1 \<and>
   query_weights 2 (\<lambda>tile cell. if tile = 0 then 1 else 0) 2 (0, 1 / 2, 3 / 4)
     = [1, 0, 0, 0, 0, 0, 0, 0] \<and>
   sum_list (query_weights 2 (\<lambda>tile cell. if tile = 0 then 1 else 0) 2 (0, 1 / 2, 3 / 4)) = 1"
proof -
  have "query_weights 1 (\<lambda>tile cell. 0) 2 (0, 1 / 2, 3 / 4) = [1 / 2, 1 / 2, 0, 0, 0, 0, 0, 0]"
    by (simp add: query_weights_def frac_offset_def cell_coord_def)
  moreover have "query_weights 2 (\<lambda>tile cell. if tile = 0 then 1 else 0) 2 (0, 1 / 2, 3 / 4)
      = [1, 0, 0, 0, 0, 0, 0, 0]"
    by (simp add: query_weights_def frac_offset_def cell_coord_def numeral_2_eq_2)
  ultimately show ?thesis
    using query_weights_sum_to_one [of 1 "\<lambda>tile cell. 0" 2 "(0, 1 / 2, 3 / 4)"]
      query_weights_sum_to_one [of 2 "\<lambda>tile cell. if tile = 0 then 1 else 0" 2 "(0, 1 / 2, 3 / 4)"]
    by blast
qed

end
